theory Spec2Isabelle
  imports Complex_Main
begin

section \<open>Error taxonomy (src/types/index.ts)\<close>

text \<open>
  \<^verbatim>\<open>export type Platform = 'android' | 'ios'\<close>
\<close>

datatype platform = android | ios

text \<open>
  The error classes of the program. \<open>Error\<close> is the JavaScript base class,
  \<open>DeploymentError\<close> extends it, and the five specific classes extend
  \<open>DeploymentError\<close>. \<open>AxiosError\<close> is what the HTTP transport rejects with; it
  extends \<open>Error\<close> only.
\<close>

datatype error_class =
  Error | DeploymentError | ValidationError | AuthenticationError
  | NetworkError | TimeoutError | ArtifactError | AxiosError

text \<open>Values stored in a \<^verbatim>\<open>Record<string, unknown>\<close> (error details, result metadata).\<close>

datatype jsval = JStr string | JNum int | JBool bool | JStrs "string list" | JUndefined

text \<open>
  An error object. \<open>code\<close>, \<open>eplatform\<close>, \<open>details\<close> and \<open>retryable\<close> are the
  public fields of \<open>DeploymentError\<close>; on a plain \<open>Error\<close> or an \<open>AxiosError\<close>
  they are absent (\<open>None\<close>, \<open>False\<close>). \<open>response_status\<close> is \<open>error.response.status\<close> of an
  \<open>AxiosError\<close> that carries a response.
\<close>

record js_error =
  cls :: error_class
  message :: string
  code :: "string option"
  eplatform :: "platform option"
  details :: "(string \<times> jsval) list option"
  retryable :: bool
  response_status :: "nat option"

fun constructor_name :: "error_class \<Rightarrow> string" where
  "constructor_name Error = ''Error''"
| "constructor_name DeploymentError = ''DeploymentError''"
| "constructor_name ValidationError = ''ValidationError''"
| "constructor_name AuthenticationError = ''AuthenticationError''"
| "constructor_name NetworkError = ''NetworkError''"
| "constructor_name TimeoutError = ''TimeoutError''"
| "constructor_name ArtifactError = ''ArtifactError''"
| "constructor_name AxiosError = ''AxiosError''"

text \<open>\<open>e instanceof C\<close>: the class of \<open>e\<close> is \<open>C\<close> or extends it.\<close>

fun extends :: "error_class \<Rightarrow> error_class \<Rightarrow> bool" where
  "extends c Error = True"
| "extends c DeploymentError =
     (c \<in> {DeploymentError, ValidationError, AuthenticationError, NetworkError,
            TimeoutError, ArtifactError})"
| "extends c d = (c = d)"

definition instanceof :: "js_error \<Rightarrow> error_class \<Rightarrow> bool" where
  "instanceof e c = extends (cls e) c"

definition new_Error :: "string \<Rightarrow> js_error" where
  "new_Error msg =
     \<lparr>cls = Error, message = msg, code = None, eplatform = None, details = None,
      retryable = False, response_status = None\<rparr>"

text \<open>
  \<^verbatim>\<open>new DeploymentError(message, code, platform?, details?, retryable = false)\<close>
\<close>

definition new_DeploymentError ::
  "string \<Rightarrow> string \<Rightarrow> platform option \<Rightarrow> (string \<times> jsval) list option \<Rightarrow> bool \<Rightarrow> js_error"
where
  "new_DeploymentError msg c p d r =
     \<lparr>cls = DeploymentError, message = msg, code = Some c, eplatform = p, details = d,
      retryable = r, response_status = None\<rparr>"

definition new_ValidationError :: "string \<Rightarrow> string list \<Rightarrow> js_error" where
  "new_ValidationError msg validationErrors =
     (new_DeploymentError msg ''VALIDATION_ERROR'' None
        (Some [(''validationErrors'', JStrs validationErrors)]) False)
     \<lparr>cls := ValidationError\<rparr>"

definition new_AuthenticationError ::
  "string \<Rightarrow> platform option \<Rightarrow> (string \<times> jsval) list option \<Rightarrow> js_error"
where
  "new_AuthenticationError msg p d =
     (new_DeploymentError msg ''AUTHENTICATION_ERROR'' p d False)\<lparr>cls := AuthenticationError\<rparr>"

definition new_NetworkError ::
  "string \<Rightarrow> platform option \<Rightarrow> (string \<times> jsval) list option \<Rightarrow> js_error"
where
  "new_NetworkError msg p d =
     (new_DeploymentError msg ''NETWORK_ERROR'' p d True)\<lparr>cls := NetworkError\<rparr>"

definition new_TimeoutError :: "string \<Rightarrow> platform option \<Rightarrow> js_error" where
  "new_TimeoutError msg p =
     (new_DeploymentError msg ''TIMEOUT_ERROR'' p None True)\<lparr>cls := TimeoutError\<rparr>"

definition new_ArtifactError ::
  "string \<Rightarrow> platform option \<Rightarrow> (string \<times> jsval) list option \<Rightarrow> js_error"
where
  "new_ArtifactError msg p d =
     (new_DeploymentError msg ''ARTIFACT_ERROR'' p d False)\<lparr>cls := ArtifactError\<rparr>"

text \<open>
  What the axios transport rejects with: an \<open>AxiosError\<close>, with the response status when a
  response was received and without one when none was.
\<close>

definition axios_error :: "string \<Rightarrow> nat option \<Rightarrow> js_error" where
  "axios_error msg st =
     \<lparr>cls = AxiosError, message = msg, code = None, eplatform = None, details = None,
      retryable = False, response_status = st\<rparr>"

section \<open>Numbers and timers of the runtime\<close>

text \<open>
  A JavaScript number is an IEEE double: a finite value (the real number the double
  stands for), one of the two infinities, or \<open>NaN\<close>. The product \<open>*\<close> and \<open>Math.pow\<close>
  are the runtime's and round their results; they are parameters. \<open>Math.min\<close> rounds
  nothing: it returns one of its arguments, or \<open>NaN\<close> when one of them is \<open>NaN\<close>.
\<close>

datatype js_number = Finite real | PosInfinity | NegInfinity | NaN

record runtime_math =
  num_times :: "js_number \<Rightarrow> js_number \<Rightarrow> js_number"
  Math_pow :: "js_number \<Rightarrow> js_number \<Rightarrow> js_number"

fun Math_min :: "js_number \<Rightarrow> js_number \<Rightarrow> js_number" where
  "Math_min NaN y = NaN"
| "Math_min x NaN = NaN"
| "Math_min NegInfinity y = NegInfinity"
| "Math_min x NegInfinity = NegInfinity"
| "Math_min PosInfinity y = y"
| "Math_min x PosInfinity = x"
| "Math_min (Finite a) (Finite b) = Finite (min a b)"

text \<open>
  \<open>setTimeout(callback, ms)\<close>: the delay, in whole milliseconds, of the timer Node.js
  sets. A delay that is not between 1 and 2147483647 (a \<open>NaN\<close> and the infinities
  included) is set to 1; a delay in that range is truncated to an integer.
\<close>

fun setTimeout_delay :: "js_number \<Rightarrow> nat" where
  "setTimeout_delay (Finite ms) = (if 1 \<le> ms \<and> ms \<le> 2147483647 then nat \<lfloor>ms\<rfloor> else 1)"
| "setTimeout_delay ms = 1"

section \<open>Retry with backoff (src/utils/helpers.ts, sleep and withRetry)\<close>

text \<open>
  The options of \<open>withRetry\<close>. The three delays are numbers of the runtime; the attempt
  count is an integer. \<open>shouldRetry\<close> is an optional field.
\<close>

record 'e retry_options =
  maxAttempts :: int
  initialDelay :: js_number
  maxDelay :: js_number
  backoffFactor :: js_number
  shouldRetry :: "('e \<Rightarrow> bool) option"

text \<open>
  What a retried computation does, in order: \<open>Invoke k\<close> is the \<open>k\<close>-th call of
  \<open>operation()\<close>, \<open>Sleep n\<close> a wait on a timer set to \<open>n\<close> milliseconds.
\<close>

datatype io_event = Invoke nat | Sleep nat

text \<open>
  \<^verbatim>\<open>sleep(ms) = new Promise(resolve => setTimeout(resolve, ms))\<close>: the wait is the
  timer's, so its length is the delay the runtime sets for \<open>ms\<close>.
\<close>

definition sleep :: "js_number \<Rightarrow> io_event" where
  "sleep ms = Sleep (setTimeout_delay ms)"

text \<open>
  How an awaited promise ends. \<open>RejectedUndefined\<close> is \<^verbatim>\<open>throw lastError!\<close> with
  \<open>lastError\<close> never assigned.
\<close>

datatype ('e, 'a) settled = Resolved 'a | Rejected 'e | RejectedUndefined

text \<open>
  The \<open>for\<close> loop of \<open>withRetry\<close>. \<open>operation k\<close> is the outcome of the \<open>k\<close>-th call
  of the operation (\<open>Inl\<close> a rejection); the loop variable \<open>attempt\<close> counts the calls, so
  iteration \<open>attempt\<close> makes call number \<open>attempt\<close>. The delay is computed with the
  runtime's product and power, \<open>math\<close>.
\<close>

function withRetry_loop ::
  "runtime_math \<Rightarrow> (nat \<Rightarrow> 'e + 'a) \<Rightarrow> 'e retry_options \<Rightarrow> nat \<Rightarrow> 'e option
     \<Rightarrow> ('e, 'a) settled \<times> io_event list"
where
  "withRetry_loop math operation options attempt lastError =
     (if int attempt \<le> maxAttempts options then
        (case operation attempt of
           Inr result \<Rightarrow> (Resolved result, [Invoke attempt])
         | Inl error \<Rightarrow>
             if int attempt = maxAttempts options
                \<or> (case shouldRetry options of Some p \<Rightarrow> \<not> p error | None \<Rightarrow> False)
             then (Rejected error, [Invoke attempt])
             else
               (let delay =
                      Math_min
                        (num_times math (initialDelay options)
                           (Math_pow math (backoffFactor options) (Finite (real attempt - 1))))
                        (maxDelay options);
                    rest = withRetry_loop math operation options (attempt + 1) (Some error)
                in (fst rest, Invoke attempt # sleep delay # snd rest)))
      else
        (case lastError of None \<Rightarrow> (RejectedUndefined, []) | Some e \<Rightarrow> (Rejected e, [])))"
  by pat_completeness auto
termination
  by (relation "measure (\<lambda>(math, operation, options, attempt, lastError).
                  nat (maxAttempts options + 1 - int attempt))") auto

declare withRetry_loop.simps [simp del]

definition withRetry ::
  "runtime_math \<Rightarrow> (nat \<Rightarrow> 'e + 'a) \<Rightarrow> 'e retry_options
     \<Rightarrow> ('e, 'a) settled \<times> io_event list"
where
  "withRetry math operation options = withRetry_loop math operation options 1 None"

section \<open>Strings and numbers of the runtime\<close>

text \<open>
  Strings are lists of characters. \<open>string_of_nat\<close> is the decimal text a template string
  gives a non-negative integer; \<open>str_includes\<close> (\<open>includes\<close>), \<open>endsWith\<close> and \<open>toLowerCase\<close> are the
  methods of \<open>String\<close> (the last on ASCII letters, which is all the comparisons of the
  program depend on).
\<close>

definition digit_char :: "nat \<Rightarrow> char" where
  "digit_char n = ''0123456789'' ! n"

fun string_of_nat :: "nat \<Rightarrow> string" where
  "string_of_nat n =
     (if n < 10 then [digit_char n] else string_of_nat (n div 10) @ [digit_char (n mod 10)])"

declare string_of_nat.simps [simp del]

definition startsWith :: "string \<Rightarrow> string \<Rightarrow> bool" where
  "startsWith s p = (take (length p) s = p)"

definition endsWith :: "string \<Rightarrow> string \<Rightarrow> bool" where
  "endsWith s p = (length p \<le> length s \<and> drop (length s - length p) s = p)"

fun str_includes :: "string \<Rightarrow> string \<Rightarrow> bool" where
  "str_includes [] p = (p = [])"
| "str_includes (c # cs) p = (startsWith (c # cs) p \<or> str_includes cs p)"

definition lower_char :: "char \<Rightarrow> char" where
  "lower_char c =
     (case map_of (zip ''ABCDEFGHIJKLMNOPQRSTUVWXYZ'' ''abcdefghijklmnopqrstuvwxyz'') c of
        Some l \<Rightarrow> l
      | None \<Rightarrow> c)"

definition toLowerCase :: "string \<Rightarrow> string" where
  "toLowerCase s = map lower_char s"

text \<open>\<open>Math.round(bytes / 1024 / 1024)\<close> for a non-negative integer number of bytes.\<close>

definition round_MB :: "nat \<Rightarrow> nat" where
  "round_MB bytes = (bytes + 524288) div 1048576"

fun platform_name :: "platform \<Rightarrow> string" where
  "platform_name android = ''android''"
| "platform_name ios = ''ios''"

section \<open>Bounded execution (src/utils/helpers.ts, formatDuration and withTimeout)\<close>

definition formatDuration :: "nat \<Rightarrow> string" where
  "formatDuration ms =
     (if ms < 1000 then string_of_nat ms @ ''ms''
      else
        let seconds = ms div 1000 in
        if seconds < 60 then string_of_nat seconds @ ''s''
        else
          let minutes = seconds div 60; remainingSeconds = seconds mod 60 in
          if minutes < 60 then
            (if remainingSeconds > 0
             then string_of_nat minutes @ ''m '' @ string_of_nat remainingSeconds @ ''s''
             else string_of_nat minutes @ ''m'')
          else
            let hours = minutes div 60; remainingMinutes = minutes mod 60 in
            if remainingMinutes > 0
            then string_of_nat hours @ ''h '' @ string_of_nat remainingMinutes @ ''m''
            else string_of_nat hours @ ''h'')"

text \<open>
  \<open>withTimeout\<close> builds a promise and registers three callbacks: the timer's, by
  \<open>setTimeout\<close>, the abort listener's (when the configuration has a signal) and the two
  handlers of the wrapped promise.

  A signal is given by its state at the call of \<open>withTimeout\<close>. A signal that is aborted
  already has dispatched its \<open>abort\<close> event, and dispatches none afterwards.
\<close>

datatype abort_signal = AbortSignal (aborted: bool)

record timeout_config =
  timeoutMs :: nat
  signal :: "abort_signal option"

text \<open>
  What happens outside the wrapper, each with the time it happens at (milliseconds after
  the call of \<open>withTimeout\<close>): \<open>abort()\<close> is called on the controller of the signal, or
  the wrapped promise settles.
\<close>

datatype 'a timeout_event = AbortFired | PromiseResolved 'a | PromiseRejected js_error

text \<open>
  What the event loop decides about a timer: how long after the delay set the callback
  runs (a callback never runs before its delay), and whether the callback runs before or
  after something that happens in the very millisecond the callback runs in.
\<close>

record event_loop =
  lateness :: nat
  timerFirst :: bool

text \<open>
  The state of the wrapper: how and when the returned promise was settled (\<open>None\<close> while
  it is pending) and whether the timer is still set.
\<close>

record 'a wrapper_state =
  settledAs :: "(nat \<times> (js_error + 'a)) option"
  timerSet :: bool

text \<open>\<open>resolve\<close> and \<open>reject\<close> of a promise act once: a settled promise stays as it is.\<close>

definition settle :: "nat \<Rightarrow> js_error + 'a \<Rightarrow> 'a wrapper_state \<Rightarrow> 'a wrapper_state" where
  "settle t r s = (if settledAs s = None then s\<lparr>settledAs := Some (t, r)\<rparr> else s)"

definition clearTimeout :: "'a wrapper_state \<Rightarrow> 'a wrapper_state" where
  "clearTimeout s = s\<lparr>timerSet := False\<rparr>"

text \<open>
  \<^verbatim>\<open>setTimeout(() => reject(new TimeoutError(...)), timeoutMs)\<close>: the time the callback
  runs at, unless the timer is cleared before, and the callback.
\<close>

definition timeoutAt :: "timeout_config \<Rightarrow> event_loop \<Rightarrow> nat" where
  "timeoutAt config loop = setTimeout_delay (Finite (real (timeoutMs config))) + lateness loop"

definition onTimeout :: "timeout_config \<Rightarrow> nat \<Rightarrow> 'a wrapper_state \<Rightarrow> 'a wrapper_state" where
  "onTimeout config t s =
     settle t
       (Inl (new_TimeoutError
               (''Operation timed out after '' @ formatDuration (timeoutMs config)) None))
       (s\<lparr>timerSet := False\<rparr>)"

text \<open>
  The abort listener and the two handlers of the wrapped promise. Without a signal no
  listener is registered; the listener of a signal aborted already is never called.
\<close>

fun onEvent ::
  "timeout_config \<Rightarrow> 'a wrapper_state \<Rightarrow> nat \<times> 'a timeout_event \<Rightarrow> 'a wrapper_state"
where
  "onEvent config s (t, AbortFired) =
     (case signal config of
        None \<Rightarrow> s
      | Some sg \<Rightarrow>
          if aborted sg then s
          else settle t
                 (Inl (new_DeploymentError ''Operation was aborted'' ''ABORTED'' None None False))
                 (clearTimeout s))"
| "onEvent config s (t, PromiseResolved result) = settle t (Inr result) (clearTimeout s)"
| "onEvent config s (t, PromiseRejected error) = settle t (Inl error) (clearTimeout s)"

text \<open>
  Whether the callback of the timer, if the timer is still set, runs before what happens
  at \<open>t\<close>.
\<close>

definition timerBefore :: "timeout_config \<Rightarrow> event_loop \<Rightarrow> nat \<Rightarrow> bool" where
  "timerBefore config loop t =
     (timeoutAt config loop < t \<or> (timeoutAt config loop = t \<and> timerFirst loop))"

text \<open>
  The event loop delivers what happens, in order, and runs the callback of the timer at
  its time if the timer is still set then: before the first event that is not before
  it, or after the last event.
\<close>

fun deliver ::
  "timeout_config \<Rightarrow> event_loop \<Rightarrow> 'a wrapper_state \<Rightarrow> (nat \<times> 'a timeout_event) list
     \<Rightarrow> 'a wrapper_state"
where
  "deliver config loop s [] =
     (if timerSet s then onTimeout config (timeoutAt config loop) s else s)"
| "deliver config loop s ((t, ev) # rest) =
     deliver config loop
       (onEvent config
          (if timerSet s \<and> timerBefore config loop t
           then onTimeout config (timeoutAt config loop) s else s)
          (t, ev))
       rest"

text \<open>
  The wrapper's promise after all of \<open>externals\<close> and the timer: \<open>Some (t, r)\<close> when it
  settled at \<open>t\<close> as \<open>r\<close>.
\<close>

definition withTimeout ::
  "timeout_config \<Rightarrow> event_loop \<Rightarrow> (nat \<times> 'a timeout_event) list
     \<Rightarrow> (nat \<times> (js_error + 'a)) option"
where
  "withTimeout config loop externals =
     settledAs (deliver config loop \<lparr>settledAs = None, timerSet = True\<rparr> externals)"

section \<open>Base64 helpers (src/utils/helpers.ts)\<close>

text \<open>
  A \<open>Buffer\<close> is a list of bytes (naturals below 256). A JavaScript string is
  represented by the characters of its UTF-8 encoding, so \<open>Buffer.from(str, 'utf-8')\<close>
  reads the characters off as bytes; \<open>buffer.toString('utf-8')\<close> is the runtime's
  decoder, a parameter of the model (\<open>utf8_toString\<close> below).

  \<open>buffer.toString('base64')\<close> is the encoding of RFC 4648 with padding.
  \<open>Buffer.from(str, 'base64')\<close> is Node's lenient decoder: it also accepts the URL-safe
  characters, skips every character outside the alphabet, stops at the first \<open>=\<close>, and
  drops a last sextet that does not complete a byte.
\<close>

definition b64_alphabet :: string where
  "b64_alphabet = ''ABCDEFGHIJKLMNOPQRSTUVWXYZabcdefghijklmnopqrstuvwxyz0123456789+/''"

definition b64_char :: "nat \<Rightarrow> char" where
  "b64_char i = b64_alphabet ! i"

definition unbase64 :: "char \<Rightarrow> nat option" where
  "unbase64 c =
     map_of (zip b64_alphabet [0..<64] @ [(CHR ''-'', 62), (CHR ''_'', 63)]) c"

fun base64_encode :: "nat list \<Rightarrow> string" where
  "base64_encode [] = []"
| "base64_encode [a] = [b64_char (a div 4), b64_char ((a mod 4) * 16), CHR ''='', CHR ''='']"
| "base64_encode [a, b] =
     [b64_char (a div 4), b64_char ((a mod 4) * 16 + b div 16), b64_char ((b mod 16) * 4),
      CHR ''='']"
| "base64_encode (a # b # c # bs) =
     [b64_char (a div 4), b64_char ((a mod 4) * 16 + b div 16),
      b64_char ((b mod 16) * 4 + c div 64), b64_char (c mod 64)] @ base64_encode bs"

fun sextets_to_bytes :: "nat list \<Rightarrow> nat list" where
  "sextets_to_bytes (h # i # j # k # rest) =
     [h * 4 + i div 16, (i mod 16) * 16 + j div 4, (j mod 4) * 64 + k] @ sextets_to_bytes rest"
| "sextets_to_bytes [h, i, j] = [h * 4 + i div 16, (i mod 16) * 16 + j div 4]"
| "sextets_to_bytes [h, i] = [h * 4 + i div 16]"
| "sextets_to_bytes rest = []"

text \<open>
  The sextets the decoder reads: those of the characters of the alphabet before the
  first \<open>=\<close>.
\<close>

definition sextets :: "string \<Rightarrow> nat list" where
  "sextets str = List.map_filter unbase64 (takeWhile (\<lambda>c. c \<noteq> CHR ''='') str)"

definition base64_decode :: "string \<Rightarrow> nat list" where
  "base64_decode str = sextets_to_bytes (sextets str)"

definition buffer_from_utf8 :: "string \<Rightarrow> nat list" where
  "buffer_from_utf8 str = map of_char str"

text \<open>
  \<open>isValidBase64\<close>: \<open>Buffer.from\<close> of a string does not throw, so the \<open>catch\<close> branch
  is never taken.
\<close>

definition isValidBase64 :: "string \<Rightarrow> bool" where
  "isValidBase64 str = (base64_encode (base64_decode str) = str)"

definition decodeBase64 :: "(nat list \<Rightarrow> string) \<Rightarrow> string \<Rightarrow> js_error + string" where
  "decodeBase64 utf8_toString encoded =
     (if \<not> isValidBase64 encoded then Inl (new_Error ''Invalid base64 string'')
      else Inr (utf8_toString (base64_decode encoded)))"

definition encodeBase64 :: "string \<Rightarrow> string" where
  "encodeBase64 str = base64_encode (buffer_from_utf8 str)"

section \<open>File system service (src/services/filesystem.ts)\<close>

text \<open>
  The primitives of the runtime the program calls: \<open>fs.access\<close>, \<open>fs.stat\<close>,
  \<open>fs.readFile\<close>, the digest of \<open>crypto\<close>, the functions of \<open>path\<close> and the UTF-8
  decoder of \<open>Buffer\<close>. They are parameters; the service is defined over them.
\<close>

record node_env =
  fs_access :: "string \<Rightarrow> bool"
  fs_stat :: "string \<Rightarrow> js_error + nat"
  fs_readFile :: "string \<Rightarrow> js_error + string"
  sha256_hex :: "string \<Rightarrow> string"
  path_extname :: "string \<Rightarrow> string"
  path_basename :: "string \<Rightarrow> string"
  path_dirname :: "string \<Rightarrow> string"
  path_join :: "string \<Rightarrow> string \<Rightarrow> string"
  utf8_toString :: "nat list \<Rightarrow> string"

record file_info =
  fsize :: nat
  checksum :: string
  extension :: string
  basename :: string
  directory :: string

definition exists :: "node_env \<Rightarrow> string \<Rightarrow> bool" where
  "exists env filePath = fs_access env filePath"

definition readFile :: "node_env \<Rightarrow> string \<Rightarrow> js_error + string" where
  "readFile env filePath =
     (case fs_readFile env filePath of
        Inr content \<Rightarrow> Inr content
      | Inl error \<Rightarrow>
          Inl (new_Error (''Failed to read file '' @ filePath @ '': '' @ message error)))"

definition getFileSize :: "node_env \<Rightarrow> string \<Rightarrow> js_error + nat" where
  "getFileSize env filePath =
     (case fs_stat env filePath of
        Inr sz \<Rightarrow> Inr sz
      | Inl error \<Rightarrow>
          Inl (new_Error (''Failed to get file size '' @ filePath @ '': '' @ message error)))"

definition getFileChecksum :: "node_env \<Rightarrow> string \<Rightarrow> js_error + string" where
  "getFileChecksum env filePath =
     (case readFile env filePath of
        Inr content \<Rightarrow> Inr (sha256_hex env content)
      | Inl error \<Rightarrow>
          Inl (new_Error (''Failed to calculate checksum '' @ filePath @ '': '' @ message error)))"

text \<open>
  \<open>getFileInfo\<close> awaits the size and the checksum together (\<open>Promise.all\<close>) and fails when
  either fails; when both fail the model reports the failure of the size.
\<close>

definition getFileInfo :: "node_env \<Rightarrow> string \<Rightarrow> js_error + file_info" where
  "getFileInfo env filePath =
     (case getFileSize env filePath of
        Inl error \<Rightarrow> Inl error
      | Inr sz \<Rightarrow>
          (case getFileChecksum env filePath of
             Inl error \<Rightarrow> Inl error
           | Inr digest \<Rightarrow>
               Inr \<lparr>fsize = sz, checksum = digest, extension = path_extname env filePath,
                    basename = path_basename env filePath,
                    directory = path_dirname env filePath\<rparr>))"

section \<open>Inputs and results (src/types/index.ts)\<close>

text \<open>
  \<open>ActionInputs\<close> is a union discriminated by \<open>platform\<close>; the record has the fields of
  both members, and a member reads only its own.
\<close>

record action_inputs =
  platform :: platform
  appVersion :: string
  buildNumber :: "string option"
  releaseNotes :: string
  artifactPath :: string
  dryRun :: bool
  timeoutMinutes :: nat
  googlePlayServiceAccountJson :: string
  googlePlayPackageName :: string
  googlePlayTrack :: string
  appStoreConnectApiKeyId :: string
  appStoreConnectApiIssuerId :: string
  appStoreConnectApiPrivateKey :: string
  iosBundleId :: string

datatype deployment_status = success | failed | skipped | in_progress

text \<open>
  \<open>DeploymentResult\<close> with the fields its two extensions add. Fields whose names the
  inputs already use carry the prefix \<open>res_\<close>.
\<close>

record deployment_result =
  res_status :: deployment_status
  res_platform :: platform
  deploymentId :: string
  startTime :: int
  endTime :: int
  duration :: int
  deploymentUrl :: "string option"
  versionCode :: "string option"
  metadata :: "(string \<times> jsval) list option"
  packageName :: "string option"
  track :: "string option"
  bundleId :: "string option"
  res_buildNumber :: "string option"
  res_appVersion :: "string option"

text \<open>
  \<open>generateId(prefix)\<close> joins the prefix, \<open>Date.now()\<close> in base 36 and six random
  characters; the last two are given by the environment.
\<close>

definition generateId :: "string \<times> string \<Rightarrow> string \<Rightarrow> string" where
  "generateId entropy prefix =
     (if prefix \<noteq> [] then prefix @ ''-'' @ fst entropy @ ''-'' @ snd entropy
      else fst entropy @ ''-'' @ snd entropy)"

section \<open>Input validation pass (src/services/validator.ts, validateArtifact)\<close>

text \<open>
  The method appends to the two lists it is given; the model returns them, errors first.
\<close>

definition validator_validateArtifact ::
  "node_env \<Rightarrow> string \<Rightarrow> platform \<Rightarrow> string list \<Rightarrow> string list \<Rightarrow> string list \<times> string list"
where
  "validator_validateArtifact env artifact p errors warnings =
     (if \<not> exists env artifact
      then (errors @ [''Artifact file not found: '' @ artifact], warnings)
      else
        let expectedExtension = (if p = android then ''.aab'' else ''.ipa'');
            errors1 =
              (if \<not> endsWith (toLowerCase artifact) expectedExtension
               then errors @ [''Invalid artifact type for '' @ platform_name p @ ''. Expected ''
                              @ expectedExtension @ '' file'']
               else errors)
        in
          (case getFileSize env artifact of
             Inl error \<Rightarrow> (errors1, warnings @ [''Could not determine artifact file size''])
           | Inr fileSize \<Rightarrow>
               let maxSize = (if p = android then 150 * 1024 * 1024 else 200 * 1024 * 1024);
                   warnings1 =
                     (if fileSize > maxSize
                      then warnings @ [''Artifact size ('' @ string_of_nat (round_MB fileSize)
                                       @ ''MB) is larger than recommended (''
                                       @ string_of_nat (round_MB maxSize) @ ''MB)'']
                      else warnings);
                   warnings2 =
                     (if fileSize < 1024 * 1024
                      then warnings1
                           @ [''Artifact size is unusually small, please verify the file is correct'']
                      else warnings1)
               in (errors1, warnings2)))"

section \<open>Deployer contract (src/deployers/base-deployer.ts)\<close>

text \<open>The two abstract methods, as the subclasses implement them.\<close>

fun getExpectedArtifactExtension :: "platform \<Rightarrow> string" where
  "getExpectedArtifactExtension android = ''.aab''"
| "getExpectedArtifactExtension ios = ''.ipa''"

fun getMaxArtifactSize :: "platform \<Rightarrow> nat" where
  "getMaxArtifactSize android = 200 * 1024 * 1024"
| "getMaxArtifactSize ios = 250 * 1024 * 1024"

text \<open>
  \<open>validateArtifact\<close> of the deployer: every failure, the exception of \<open>getFileInfo\<close>
  included, ends in \<open>false\<close>.
\<close>

definition deployer_validateArtifact :: "node_env \<Rightarrow> platform \<Rightarrow> string \<Rightarrow> bool" where
  "deployer_validateArtifact env p artifact =
     (if \<not> exists env artifact then False
      else
        (case getFileInfo env artifact of
           Inl error \<Rightarrow> False
         | Inr fileInfo \<Rightarrow>
             let expectedExtension = getExpectedArtifactExtension p in
             if toLowerCase (extension fileInfo) \<noteq> expectedExtension then False
             else
               let maxSize = getMaxArtifactSize p in
               if fsize fileInfo > maxSize then False else True))"

definition isRetryableError :: "js_error \<Rightarrow> bool" where
  "isRetryableError error =
     (if str_includes (message error) ''network'' \<or> str_includes (message error) ''timeout''
         \<or> str_includes (message error) ''ECONNRESET''
         \<or> str_includes (message error) ''ETIMEDOUT''
      then True
      else if str_includes (message error) ''rate limit'' \<or> str_includes (message error) ''429''
         \<or> str_includes (message error) ''too many requests''
      then True
      else if str_includes (message error) ''500'' \<or> str_includes (message error) ''502''
         \<or> str_includes (message error) ''503'' \<or> str_includes (message error) ''504''
      then True
      else False)"

text \<open>
  \<open>handleDeploymentError(error, {inputs, startTime, operation})\<close>; \<open>now\<close> is the reading
  of \<open>Date.now()\<close> in it.
\<close>

definition handleDeploymentError ::
  "platform \<Rightarrow> js_error \<Rightarrow> action_inputs \<Rightarrow> int \<Rightarrow> string option \<Rightarrow> int \<Rightarrow> js_error"
where
  "handleDeploymentError p error inputs start operation now =
     (let duration = now - start in
      new_DeploymentError (message error) (constructor_name (cls error)) (Some p)
        (Some [(''operation'', (case operation of None \<Rightarrow> JUndefined | Some l \<Rightarrow> JStr l)),
               (''duration'', JNum duration),
               (''version'', JStr (appVersion inputs)),
               (''buildNumber'',
                  (case buildNumber inputs of None \<Rightarrow> JUndefined | Some b \<Rightarrow> JStr b)),
               (''dryRun'', JBool (dryRun inputs))])
        (isRetryableError error))"

definition createBaseResult ::
  "platform \<Rightarrow> string \<times> string \<Rightarrow> deployment_status \<Rightarrow> int \<Rightarrow> int \<Rightarrow> deployment_result"
where
  "createBaseResult p entropy st start end_time =
     \<lparr>res_status = st, res_platform = p,
      deploymentId = generateId entropy (platform_name p @ ''-deploy''),
      startTime = start, endTime = end_time, duration = end_time - start,
      deploymentUrl = None, versionCode = None, metadata = None, packageName = None,
      track = None, bundleId = None, res_buildNumber = None, res_appVersion = None\<rparr>"

text \<open>
  The readings of the clock one deployment attempt takes: \<open>new Date()\<close> at its start and
  at its successful end, and \<open>Date.now()\<close> in the error handler.
\<close>

record clock =
  t_start :: int
  t_end :: int
  t_error :: int

fun getDryRunUrl :: "platform \<Rightarrow> string" where
  "getDryRunUrl android = ''https://play.google.com/console/developers (dry run - no actual deployment)''"
| "getDryRunUrl ios = ''https://appstoreconnect.apple.com (dry run - no actual deployment)''"

text \<open>
  \<open>performDryRun\<close>; \<open>specific\<close> is the outcome of
  \<open>performPlatformSpecificDryRunValidations\<close>, which the subclass overrides.
\<close>

definition performDryRun ::
  "node_env \<Rightarrow> platform \<Rightarrow> string \<times> string \<Rightarrow> clock \<Rightarrow> action_inputs \<Rightarrow> js_error + unit
     \<Rightarrow> js_error + deployment_result"
where
  "performDryRun env p entropy clk inputs specific =
     (if \<not> deployer_validateArtifact env p (artifactPath inputs)
      then Inl (new_DeploymentError ''Artifact validation failed during dry run''
                  ''DRY_RUN_VALIDATION_FAILED'' (Some p) None False)
      else
        (case specific of
           Inl error \<Rightarrow> Inl error
         | Inr u \<Rightarrow>
             Inr ((createBaseResult p entropy success (t_start clk) (t_end clk))
                    \<lparr>deploymentUrl := Some (getDryRunUrl p),
                     versionCode := Some (appVersion inputs),
                     metadata := Some [(''dryRun'', JBool True),
                                       (''validationsPassed'', JBool True)]\<rparr>)))"

section \<open>Android upload state machine (src/deployers/android-deployer.ts)\<close>

text \<open>
  The Google Play Developer API and \<open>JSON.parse\<close>, as the environment answers them. A
  call of \<open>edits\<close> either fails with an error or returns; \<open>edits.insert\<close> returns the
  identifier of the edit when the response has one, \<open>bundles.upload\<close> the version code
  when the response has one.
\<close>

record google_play_env =
  json_parse :: "string \<Rightarrow> js_error + (string \<times> jsval) list"
  edits_insert :: "js_error + string option"
  bundles_upload :: "string \<Rightarrow> js_error + nat option"
  tracks_update :: "string \<Rightarrow> js_error option"
  edits_commit :: "string \<Rightarrow> js_error option"
  edits_delete :: "string \<Rightarrow> js_error option"

text \<open>The remote calls a deployment makes, in order, each with the edit it is about.\<close>

datatype api_call =
  EditsInsert | BundlesUpload string | TracksUpdate string | EditsCommit string
  | EditsDelete string

text \<open>
  The fields of the deployer object: whether \<open>androidPublisher\<close> is set (it is \<open>null\<close>
  until the API is initialised) and the package name.
\<close>

record android_deployer =
  androidPublisher :: bool
  thisPackageName :: string

definition new_AndroidDeployer :: android_deployer where
  "new_AndroidDeployer = \<lparr>androidPublisher = False, thisPackageName = []\<rparr>"

text \<open>\<open>!value\<close> for a value read from an object (\<open>None\<close> when the key is missing).\<close>

fun falsy :: "jsval option \<Rightarrow> bool" where
  "falsy None = True"
| "falsy (Some (JStr v)) = (v = [])"
| "falsy (Some (JNum n)) = (n = 0)"
| "falsy (Some (JBool b)) = (\<not> b)"
| "falsy (Some (JStrs vs)) = False"
| "falsy (Some JUndefined) = True"

fun missing_field :: "(string \<times> jsval) list \<Rightarrow> string list \<Rightarrow> string option" where
  "missing_field serviceAccount [] = None"
| "missing_field serviceAccount (field # requiredFields) =
     (if falsy (map_of serviceAccount field) then Some field
      else missing_field serviceAccount requiredFields)"

definition validateServiceAccount :: "(string \<times> jsval) list \<Rightarrow> js_error + unit" where
  "validateServiceAccount serviceAccount =
     (case missing_field serviceAccount
             [''type'', ''project_id'', ''private_key'', ''client_email''] of
        Some field \<Rightarrow>
          Inl (new_Error (''Missing required field in service account: '' @ field))
      | None \<Rightarrow>
          if map_of serviceAccount ''type'' \<noteq> Some (JStr ''service_account'')
          then Inl (new_Error (''Service account must be of type '' @ [CHR 0x22]
                               @ ''service_account'' @ [CHR 0x22]))
          else Inr ())"

definition initializeGooglePlayAPI ::
  "node_env \<Rightarrow> google_play_env \<Rightarrow> action_inputs \<Rightarrow> android_deployer
     \<Rightarrow> (js_error + unit) \<times> android_deployer"
where
  "initializeGooglePlayAPI env api inputs this =
     (let attempt =
            (case decodeBase64 (utf8_toString env) (googlePlayServiceAccountJson inputs) of
               Inl error \<Rightarrow> Inl error
             | Inr serviceAccountJson \<Rightarrow>
                 (case json_parse api serviceAccountJson of
                    Inl error \<Rightarrow> Inl error
                  | Inr serviceAccount \<Rightarrow> validateServiceAccount serviceAccount))
      in case attempt of
           Inr u \<Rightarrow>
             (Inr (), this\<lparr>androidPublisher := True,
                           thisPackageName := googlePlayPackageName inputs\<rparr>)
         | Inl error \<Rightarrow>
             (Inl (new_AuthenticationError
                     (''Google Play API initialization failed: '' @ message error)
                     (Some android) None),
              this))"

text \<open>
  The four steps of the session and the cleanup. Each returns its outcome and the remote
  calls it made. The guard \<open>if (!this.androidPublisher)\<close> of a step throws before its
  \<open>try\<close>, so that error is not rewritten; an error inside the \<open>try\<close> (a failed call, or
  a response without the identifier or the version code) is rethrown as a
  \<open>NetworkError\<close>.
\<close>

definition createEditSession ::
  "google_play_env \<Rightarrow> android_deployer \<Rightarrow> (js_error + string) \<times> api_call list"
where
  "createEditSession api this =
     (if \<not> androidPublisher this then (Inl (new_Error ''Google Play API not initialized''), [])
      else
        let attempt =
              (case edits_insert api of
                 Inl error \<Rightarrow> Inl error
               | Inr None \<Rightarrow>
                   Inl (new_Error ''Failed to create edit session - no edit ID returned'')
               | Inr (Some editId) \<Rightarrow>
                   if editId = []
                   then Inl (new_Error ''Failed to create edit session - no edit ID returned'')
                   else Inr editId)
        in (case attempt of
              Inr editId \<Rightarrow> Inr editId
            | Inl error \<Rightarrow>
                Inl (new_NetworkError
                       (''Failed to create Google Play edit session: '' @ message error)
                       (Some android) None),
            [EditsInsert]))"

definition uploadAAB ::
  "google_play_env \<Rightarrow> android_deployer \<Rightarrow> string \<Rightarrow> string
     \<Rightarrow> (js_error + nat) \<times> api_call list"
where
  "uploadAAB api this editId artifact =
     (if \<not> androidPublisher this then (Inl (new_Error ''Google Play API not initialized''), [])
      else
        let attempt =
              (case bundles_upload api editId of
                 Inl error \<Rightarrow> Inl error
               | Inr None \<Rightarrow> Inl (new_Error ''Upload succeeded but no version code returned'')
               | Inr (Some vc) \<Rightarrow>
                   if vc = 0
                   then Inl (new_Error ''Upload succeeded but no version code returned'')
                   else Inr vc)
        in (case attempt of
              Inr vc \<Rightarrow> Inr vc
            | Inl error \<Rightarrow>
                Inl (new_NetworkError
                       (''Failed to upload AAB to Google Play: '' @ message error)
                       (Some android) None),
            [BundlesUpload editId]))"

definition updateTrack ::
  "google_play_env \<Rightarrow> android_deployer \<Rightarrow> string \<Rightarrow> action_inputs \<Rightarrow> nat
     \<Rightarrow> (js_error + unit) \<times> api_call list"
where
  "updateTrack api this editId inputs vc =
     (if \<not> androidPublisher this then (Inl (new_Error ''Google Play API not initialized''), [])
      else
        (case tracks_update api editId of
           None \<Rightarrow> Inr ()
         | Some error \<Rightarrow>
             Inl (new_NetworkError
                    (''Failed to update Google Play track: '' @ message error)
                    (Some android) None),
         [TracksUpdate editId]))"

definition commitEditSession ::
  "google_play_env \<Rightarrow> android_deployer \<Rightarrow> string \<Rightarrow> (js_error + unit) \<times> api_call list"
where
  "commitEditSession api this editId =
     (if \<not> androidPublisher this then (Inl (new_Error ''Google Play API not initialized''), [])
      else
        (case edits_commit api editId of
           None \<Rightarrow> Inr ()
         | Some error \<Rightarrow>
             Inl (new_NetworkError
                    (''Failed to commit Google Play edit session: '' @ message error)
                    (Some android) None),
         [EditsCommit editId]))"

text \<open>
  \<open>cleanupEditSession\<close> returns nothing and throws nothing: a failure of
  \<open>edits.delete\<close> is logged as a warning only.
\<close>

definition cleanupEditSession ::
  "google_play_env \<Rightarrow> android_deployer \<Rightarrow> string \<Rightarrow> api_call list"
where
  "cleanupEditSession api this editId =
     (if \<not> androidPublisher this then []
      else
        (case edits_delete api editId of
           None \<Rightarrow> [EditsDelete editId]
         | Some error \<Rightarrow> [EditsDelete editId]))"

text \<open>
  The steps after the session is open: the inner \<open>try\<close> of
  \<open>performGooglePlayDeployment\<close>, without its \<open>catch\<close>.
\<close>

definition session_steps ::
  "google_play_env \<Rightarrow> android_deployer \<Rightarrow> string \<times> string \<Rightarrow> clock \<Rightarrow> action_inputs
     \<Rightarrow> string \<Rightarrow> (js_error + deployment_result) \<times> api_call list"
where
  "session_steps api this entropy clk inputs editId =
     (case uploadAAB api this editId (artifactPath inputs) of
        (Inl error, c1) \<Rightarrow> (Inl error, c1)
      | (Inr vc, c1) \<Rightarrow>
          (case updateTrack api this editId inputs vc of
             (Inl error, c2) \<Rightarrow> (Inl error, c1 @ c2)
           | (Inr u, c2) \<Rightarrow>
               (case commitEditSession api this editId of
                  (Inl error, c3) \<Rightarrow> (Inl error, c1 @ c2 @ c3)
                | (Inr v, c3) \<Rightarrow>
                    (Inr \<lparr>res_status = success, res_platform = android,
                          deploymentId = generateId entropy ''android-deploy'',
                          startTime = t_start clk, endTime = t_end clk,
                          duration = t_end clk - t_start clk,
                          deploymentUrl =
                            Some (''https://play.google.com/store/apps/details?id=''
                                  @ thisPackageName this),
                          versionCode = Some (string_of_nat vc),
                          metadata =
                            Some [(''packageName'', JStr (thisPackageName this)),
                                  (''track'', JStr (googlePlayTrack inputs)),
                                  (''versionCode'', JNum (int vc)),
                                  (''editId'', JStr editId)],
                          packageName = Some (thisPackageName this),
                          track = Some (googlePlayTrack inputs),
                          bundleId = None, res_buildNumber = None, res_appVersion = None\<rparr>,
                     c1 @ c2 @ c3))))"

definition performGooglePlayDeployment ::
  "google_play_env \<Rightarrow> android_deployer \<Rightarrow> string \<times> string \<Rightarrow> clock \<Rightarrow> action_inputs
     \<Rightarrow> (js_error + deployment_result) \<times> api_call list"
where
  "performGooglePlayDeployment api this entropy clk inputs =
     (if \<not> androidPublisher this then (Inl (new_Error ''Google Play API not initialized''), [])
      else
        (case createEditSession api this of
           (Inl error, c0) \<Rightarrow> (Inl error, c0)
         | (Inr editId, c0) \<Rightarrow>
             (case session_steps api this entropy clk inputs editId of
                (Inr result, cs) \<Rightarrow> (Inr result, c0 @ cs)
              | (Inl error, cs) \<Rightarrow>
                  (Inl error, c0 @ cs @ cleanupEditSession api this editId))))"

text \<open>
  \<open>AndroidDeployer.deploy\<close> on a deployer the factory has just made. The platform check
  is before the \<open>try\<close>; every error of the \<open>try\<close> goes through
  \<open>handleDeploymentError\<close>.
\<close>

definition android_lifecycle ::
  "node_env \<Rightarrow> google_play_env \<Rightarrow> string \<times> string \<Rightarrow> clock \<Rightarrow> action_inputs
     \<Rightarrow> (js_error + deployment_result) \<times> api_call list"
where
  "android_lifecycle env api entropy clk inputs =
     (if dryRun inputs
      then (performDryRun env android entropy clk inputs
              (fst (initializeGooglePlayAPI env api inputs new_AndroidDeployer)), [])
      else
        (case initializeGooglePlayAPI env api inputs new_AndroidDeployer of
           (Inl error, this) \<Rightarrow> (Inl error, [])
         | (Inr u, this) \<Rightarrow>
             if \<not> deployer_validateArtifact env android (artifactPath inputs)
             then (Inl (new_DeploymentError ''Artifact validation failed''
                          ''ARTIFACT_VALIDATION_FAILED'' None None False), [])
             else performGooglePlayDeployment api this entropy clk inputs))"

definition android_deploy ::
  "node_env \<Rightarrow> google_play_env \<Rightarrow> string \<times> string \<Rightarrow> clock \<Rightarrow> action_inputs
     \<Rightarrow> (js_error + deployment_result) \<times> api_call list"
where
  "android_deploy env api entropy clk inputs =
     (if platform inputs \<noteq> android
      then (Inl (new_DeploymentError ''Invalid platform for Android deployer''
                   ''INVALID_PLATFORM'' None None False), [])
      else
        (case android_lifecycle env api entropy clk inputs of
           (Inr result, calls) \<Rightarrow> (Inr result, calls)
         | (Inl error, calls) \<Rightarrow>
             (Inl (handleDeploymentError android error inputs (t_start clk)
                     (Some ''Google Play deployment'') (t_error clk)),
              calls)))"

section \<open>iOS upload (src/deployers/ios-deployer.ts)\<close>

text \<open>
  What \<open>execSync\<close> throws when the command fails: the two output streams, the message
  and the exit status.
\<close>

record exec_error =
  stderr :: string
  stdout :: string
  exec_message :: string
  exit_status :: nat

text \<open>
  The environment of the iOS deployer: the temporary directory, the failures of
  \<open>fs.writeFile\<close> and \<open>fs.unlink\<close> on a path (\<open>None\<close> when the call succeeds), which of
  the tools \<open>xcrun altool\<close> and \<open>xcrun notarytool\<close> answer \<open>--version\<close>, and the run
  of the upload command, which sees the files that exist when it is invoked. The four
  replacements of \<open>sanitizeAltoolOutput\<close> are not modelled: the function is the
  parameter \<open>sanitize\<close>.
\<close>

record ios_env =
  os_tmpdir :: string
  writeFile_error :: "string \<Rightarrow> js_error option"
  unlink_error :: "string \<Rightarrow> js_error option"
  altool_available :: bool
  notarytool_available :: bool
  exec_altool :: "string \<Rightarrow> string set \<Rightarrow> exec_error + string"
  sanitize :: "string \<Rightarrow> string"

text \<open>
  What the upload does to the file system and the subprocess it starts, in order. An
  invocation of the upload tool records the command and the files that exist at that
  moment.
\<close>

datatype ios_event = WriteFile string | ExecAltool string "string set" | Unlink string

definition validateIOSInputs :: "action_inputs \<Rightarrow> js_error + unit" where
  "validateIOSInputs inputs =
     (if appStoreConnectApiKeyId inputs = []
      then Inl (new_DeploymentError ''App Store Connect API Key ID is required''
                  ''MISSING_API_KEY_ID'' None None False)
      else if appStoreConnectApiIssuerId inputs = []
      then Inl (new_DeploymentError ''App Store Connect API Issuer ID is required''
                  ''MISSING_ISSUER_ID'' None None False)
      else if appStoreConnectApiPrivateKey inputs = []
      then Inl (new_DeploymentError ''App Store Connect API Private Key is required''
                  ''MISSING_PRIVATE_KEY'' None None False)
      else if iosBundleId inputs = []
      then Inl (new_DeploymentError ''iOS Bundle ID is required'' ''MISSING_BUNDLE_ID''
                  None None False)
      else Inr ())"

definition checkSystemRequirements :: "ios_env \<Rightarrow> js_error + unit" where
  "checkSystemRequirements ienv =
     (if altool_available ienv then Inr ()
      else if notarytool_available ienv then Inr ()
      else Inl (new_DeploymentError
                  ''Neither xcrun altool nor notarytool is available. Please install Xcode command line tools.''
                  ''MISSING_XCODE_TOOLS'' None None False))"

definition createTemporaryApiKeyFile ::
  "node_env \<Rightarrow> ios_env \<Rightarrow> action_inputs \<Rightarrow> string set
     \<Rightarrow> (js_error + string) \<times> string set \<times> ios_event list"
where
  "createTemporaryApiKeyFile env ienv inputs files =
     (case decodeBase64 (utf8_toString env) (appStoreConnectApiPrivateKey inputs) of
        Inl error \<Rightarrow>
          (Inl (new_DeploymentError (''Failed to create API key file: '' @ message error)
                  ''API_KEY_FILE_CREATION_FAILED'' None None False),
           files, [])
      | Inr privateKey \<Rightarrow>
          let tempDir = os_tmpdir ienv;
              keyFileName = ''AuthKey_'' @ appStoreConnectApiKeyId inputs @ ''.p8'';
              keyFilePath = path_join env tempDir keyFileName
          in (case writeFile_error ienv keyFilePath of
                Some error \<Rightarrow>
                  (Inl (new_DeploymentError
                          (''Failed to create API key file: '' @ message error)
                          ''API_KEY_FILE_CREATION_FAILED'' None None False),
                   files, [WriteFile keyFilePath])
              | None \<Rightarrow> (Inr keyFilePath, insert keyFilePath files, [WriteFile keyFilePath])))"

text \<open>\<open>fs.unlink\<close> fails on a path that does not exist; the failure is logged only.\<close>

definition cleanupTemporaryApiKeyFile ::
  "ios_env \<Rightarrow> string \<Rightarrow> string set \<Rightarrow> string set \<times> ios_event list"
where
  "cleanupTemporaryApiKeyFile ienv keyFilePath files =
     (if keyFilePath \<in> files \<and> unlink_error ienv keyFilePath = None
      then (files - {keyFilePath}, [Unlink keyFilePath])
      else (files, [Unlink keyFilePath]))"

definition handleAltoolError :: "string \<Rightarrow> js_error" where
  "handleAltoolError errorOutput =
     (if str_includes errorOutput ''Unable to authenticate''
      then new_AuthenticationError
             ''App Store Connect authentication failed. Please verify your API credentials.''
             (Some ios)
             (Some [(''suggestion'',
                     JStr ''Check API Key ID, Issuer ID, and Private Key are correct'')])
      else if str_includes errorOutput ''Invalid bundle identifier''
      then new_DeploymentError ''Invalid bundle identifier in IPA file'' ''INVALID_BUNDLE_ID''
             (Some ios)
             (Some [(''suggestion'',
                     JStr ''Ensure the IPA bundle ID matches your App Store Connect app'')])
             False
      else if str_includes errorOutput ''The provided entity name is not unique''
      then new_DeploymentError ''A build with this version already exists''
             ''DUPLICATE_VERSION'' (Some ios)
             (Some [(''suggestion'', JStr ''Increment the build number in your app and rebuild'')])
             False
      else if str_includes errorOutput ''Invalid provisioning profile''
      then new_DeploymentError ''Invalid provisioning profile in IPA''
             ''INVALID_PROVISIONING_PROFILE'' (Some ios)
             (Some [(''suggestion'',
                     JStr ''Ensure your IPA is signed with a valid App Store distribution profile'')])
             False
      else if str_includes errorOutput ''Network error''
      then new_NetworkError
             ''Network error during upload. Please check your internet connection and try again.''
             (Some ios) (Some [(''retryable'', JBool True)])
      else new_DeploymentError (''App Store upload failed: '' @ errorOutput) ''ALTOOL_ERROR''
             (Some ios)
             (Some [(''suggestion'',
                     JStr ''Check the altool output above for specific error details''),
                    (''rawError'', JStr errorOutput)])
             False)"

definition altoolCommand :: "node_env \<Rightarrow> string \<Rightarrow> string \<Rightarrow> action_inputs \<Rightarrow> string" where
  "altoolCommand env ipaPath apiKeyPath inputs =
     ''xcrun altool --upload-app --file '' @ [CHR 0x22] @ ipaPath @ [CHR 0x22]
     @ '' --type ios --apiKey '' @ [CHR 0x22] @ appStoreConnectApiKeyId inputs @ [CHR 0x22]
     @ '' --apiIssuer '' @ [CHR 0x22] @ appStoreConnectApiIssuerId inputs @ [CHR 0x22]
     @ '' --apiKeyPath '' @ [CHR 0x22] @ path_dirname env apiKeyPath @ [CHR 0x22]
     @ '' --verbose''"

text \<open>
  \<open>uploadWithAltool\<close>: every error of its body, those of \<open>handleAltoolError\<close> included,
  is caught by the outer \<open>catch\<close> and rethrown as \<open>ALTOOL_UPLOAD_FAILED\<close>.
\<close>

definition uploadWithAltool ::
  "node_env \<Rightarrow> ios_env \<Rightarrow> string \<Rightarrow> string \<Rightarrow> action_inputs \<Rightarrow> string set
     \<Rightarrow> (js_error + unit) \<times> ios_event list"
where
  "uploadWithAltool env ienv ipaPath apiKeyPath inputs files =
     (let attempt =
            (if \<not> fs_access env ipaPath
             then (Inl (new_DeploymentError (''IPA file not found: '' @ ipaPath)
                          ''IPA_FILE_NOT_FOUND'' None None False), [])
             else
               (case fs_stat env ipaPath of
                  Inl error \<Rightarrow> (Inl error, [])
                | Inr sz \<Rightarrow>
                    let cmd = altoolCommand env ipaPath apiKeyPath inputs in
                    (case exec_altool ienv cmd files of
                       Inr output \<Rightarrow> (Inr (), [ExecAltool cmd files])
                     | Inl execError \<Rightarrow>
                         let errorOutput =
                               (if stderr execError \<noteq> [] then stderr execError
                                else if stdout execError \<noteq> [] then stdout execError
                                else exec_message execError);
                             sanitizedError = sanitize ienv errorOutput
                         in (Inl (handleAltoolError sanitizedError), [ExecAltool cmd files]))))
      in case attempt of
           (Inr u, evs) \<Rightarrow> (Inr (), evs)
         | (Inl error, evs) \<Rightarrow>
             (Inl (new_DeploymentError (''App Store upload failed: '' @ message error)
                     ''ALTOOL_UPLOAD_FAILED'' None None False),
              evs))"

text \<open>
  \<open>performRealAppStoreUpload\<close>: the key file is written, the upload runs in a \<open>try\<close>
  whose \<open>finally\<close> removes the file. The function returns its outcome, the files that
  exist when it returns, and what it did.
\<close>

definition performRealAppStoreUpload ::
  "node_env \<Rightarrow> ios_env \<Rightarrow> string \<times> string \<Rightarrow> clock \<Rightarrow> action_inputs \<Rightarrow> string set
     \<Rightarrow> (js_error + deployment_result) \<times> string set \<times> ios_event list"
where
  "performRealAppStoreUpload env ienv entropy clk inputs files =
     (case createTemporaryApiKeyFile env ienv inputs files of
        (Inl error, files1, ev1) \<Rightarrow> (Inl error, files1, ev1)
      | (Inr apiKeyPath, files1, ev1) \<Rightarrow>
          (case uploadWithAltool env ienv (artifactPath inputs) apiKeyPath inputs files1 of
             (uploaded, ev2) \<Rightarrow>
               (case cleanupTemporaryApiKeyFile ienv apiKeyPath files1 of
                  (files2, ev3) \<Rightarrow>
                    ((case uploaded of
                        Inl error \<Rightarrow> Inl error
                      | Inr u \<Rightarrow>
                          Inr \<lparr>res_status = success, res_platform = ios,
                               deploymentId = generateId entropy ''ios-upload'',
                               startTime = t_start clk, endTime = t_end clk,
                               duration = t_end clk - t_start clk,
                               deploymentUrl = Some ''https://appstoreconnect.apple.com/apps'',
                               versionCode = Some (appVersion inputs),
                               metadata =
                                 Some [(''bundleId'', JStr (iosBundleId inputs)),
                                       (''uploadMethod'', JStr ''xcrun altool''),
                                       (''realUpload'', JBool True)],
                               packageName = None, track = None,
                               bundleId = Some (iosBundleId inputs),
                               res_buildNumber =
                                 (case buildNumber inputs of
                                    None \<Rightarrow> None
                                  | Some b \<Rightarrow> if b = [] then None else Some b),
                               res_appVersion = Some (appVersion inputs)\<rparr>),
                     files2, ev1 @ ev2 @ ev3))))"

definition ios_lifecycle ::
  "node_env \<Rightarrow> ios_env \<Rightarrow> string \<times> string \<Rightarrow> clock \<Rightarrow> action_inputs \<Rightarrow> string set
     \<Rightarrow> (js_error + deployment_result) \<times> string set \<times> ios_event list"
where
  "ios_lifecycle env ienv entropy clk inputs files =
     (if dryRun inputs
      then (performDryRun env ios entropy clk inputs (validateIOSInputs inputs), files, [])
      else
        (case validateIOSInputs inputs of
           Inl error \<Rightarrow> (Inl error, files, [])
         | Inr u \<Rightarrow>
             (case checkSystemRequirements ienv of
                Inl error \<Rightarrow> (Inl error, files, [])
              | Inr v \<Rightarrow>
                  if \<not> deployer_validateArtifact env ios (artifactPath inputs)
                  then (Inl (new_DeploymentError ''Artifact validation failed''
                               ''ARTIFACT_VALIDATION_FAILED'' None None False), files, [])
                  else performRealAppStoreUpload env ienv entropy clk inputs files)))"

definition ios_deploy ::
  "node_env \<Rightarrow> ios_env \<Rightarrow> string \<times> string \<Rightarrow> clock \<Rightarrow> action_inputs \<Rightarrow> string set
     \<Rightarrow> (js_error + deployment_result) \<times> string set \<times> ios_event list"
where
  "ios_deploy env ienv entropy clk inputs files =
     (if platform inputs \<noteq> ios
      then (Inl (new_DeploymentError ''Invalid platform for iOS deployer'' ''INVALID_PLATFORM''
                   None None False), files, [])
      else
        (case ios_lifecycle env ienv entropy clk inputs files of
           (Inr result, files1, evs) \<Rightarrow> (Inr result, files1, evs)
         | (Inl error, files1, evs) \<Rightarrow>
             (Inl (handleDeploymentError ios error inputs (t_start clk)
                     (Some ''App Store Connect upload'') (t_error clk)),
              files1, evs)))"

section \<open>Orchestrator (src/core/action.ts)\<close>

text \<open>\<open>validateArtifact\<close> of the orchestrator throws; \<open>Inl\<close> is what it throws.\<close>

definition action_validateArtifact :: "node_env \<Rightarrow> action_inputs \<Rightarrow> js_error + unit" where
  "action_validateArtifact env inputs =
     (if \<not> exists env (artifactPath inputs)
      then Inl (new_DeploymentError (''Artifact file not found: '' @ artifactPath inputs)
                  ''ARTIFACT_NOT_FOUND'' (Some (platform inputs)) None False)
      else
        (case getFileInfo env (artifactPath inputs) of
           Inl error \<Rightarrow> Inl error
         | Inr artifactInfo \<Rightarrow>
             let expectedExtension = (if platform inputs = android then ''.aab'' else ''.ipa'') in
             if toLowerCase (extension artifactInfo) \<noteq> expectedExtension
             then Inl (new_DeploymentError
                         (''Invalid artifact type for '' @ platform_name (platform inputs)
                          @ ''. Expected '' @ expectedExtension @ '', got ''
                          @ extension artifactInfo)
                         ''INVALID_ARTIFACT_TYPE'' (Some (platform inputs)) None False)
             else
               let maxSize = (if platform inputs = android then 200 * 1024 * 1024
                              else 250 * 1024 * 1024)
               in if fsize artifactInfo > maxSize
                  then Inl (new_DeploymentError
                              (''Artifact size ('' @ string_of_nat (round_MB (fsize artifactInfo))
                               @ ''MB) exceeds maximum allowed size (''
                               @ string_of_nat (round_MB maxSize) @ ''MB)'')
                              ''ARTIFACT_TOO_LARGE'' (Some (platform inputs)) None False)
                  else Inr ()))"

text \<open>
  The \<open>catch\<close> of \<open>performDeployment\<close>: every error becomes a new \<open>DeploymentError\<close>
  whose code is the name of the class of the error caught. \<open>now\<close> is the reading of
  \<open>Date.now()\<close> in the handler, \<open>start\<close> the one taken on entry.
\<close>

definition enhance_error :: "action_inputs \<Rightarrow> int \<Rightarrow> int \<Rightarrow> js_error \<Rightarrow> js_error" where
  "enhance_error inputs start now error =
     new_DeploymentError (message error) (constructor_name (cls error))
       (Some (platform inputs))
       (Some [(''duration'', JNum (now - start)),
              (''dryRun'', JBool (dryRun inputs)),
              (''version'', JStr (appVersion inputs))])
       (instanceof error TimeoutError)"

text \<open>
  What the orchestrator does next to validating: it makes the deployer and starts the
  deployment, the first step that can reach the network.
\<close>

datatype orchestrator_event = CreateDeployer platform | DeployStarted

text \<open>
  The event by which the promise \<open>deployer.deploy(inputs)\<close> reaches the wrapper: the
  rejection with the error it threw, or the resolution with its result.
\<close>

definition settlement :: "js_error + 'a \<Rightarrow> 'a timeout_event" where
  "settlement outcome =
     (case outcome of Inl error \<Rightarrow> PromiseRejected error | Inr result \<Rightarrow> PromiseResolved result)"

text \<open>
  \<open>performDeployment\<close>. The deployment \<open>deployer.deploy(inputs)\<close> runs under
  \<open>withTimeout\<close> with the signal of a new \<open>AbortController\<close>, which is not aborted and
  which nothing else refers to: all that happens outside the wrapper is that the
  deployment settles. \<open>deployment\<close> is when and how it does, \<open>None\<close> when it never does.
  The result is \<open>None\<close> while the wrapper is pending.
\<close>

definition performDeployment ::
  "node_env \<Rightarrow> action_inputs \<Rightarrow> event_loop \<Rightarrow> (nat \<times> (js_error + deployment_result)) option
     \<Rightarrow> int \<Rightarrow> int
     \<Rightarrow> (js_error + deployment_result) option \<times> orchestrator_event list"
where
  "performDeployment env inputs loop deployment start now =
     (case action_validateArtifact env inputs of
        Inl error \<Rightarrow> (Some (Inl (enhance_error inputs start now error)), [])
      | Inr u \<Rightarrow>
          (case withTimeout
                  \<lparr>timeoutMs = timeoutMinutes inputs * 60 * 1000,
                   signal = Some (AbortSignal False)\<rparr>
                  loop
                  (case deployment of
                     None \<Rightarrow> []
                   | Some (t, outcome) \<Rightarrow> [(t, settlement outcome)]) of
             None \<Rightarrow> (None, [CreateDeployer (platform inputs), DeployStarted])
           | Some (t, Inr result) \<Rightarrow>
               (Some (Inr (result\<lparr>duration := now - start\<rparr>)),
                [CreateDeployer (platform inputs), DeployStarted])
           | Some (t, Inl error) \<Rightarrow>
               (Some (Inl (enhance_error inputs start now error)),
                [CreateDeployer (platform inputs), DeployStarted])))"

section \<open>HTTP execution layer (src/services/http-client.ts)\<close>

text \<open>
  \<^verbatim>\<open>interface RetryConfig\<close> of src/types/index.ts. Its fields carry the prefix
  \<open>cfg_\<close> to keep them apart from the options of \<open>withRetry\<close>; here \<open>shouldRetry\<close> is
  mandatory.
\<close>

record 'e retry_config =
  cfg_maxAttempts :: int
  cfg_initialDelay :: js_number
  cfg_maxDelay :: js_number
  cfg_backoffFactor :: js_number
  cfg_shouldRetry :: "'e \<Rightarrow> bool"

definition DEFAULT_RETRY_CONFIG :: "js_error retry_config" where
  "DEFAULT_RETRY_CONFIG =
     \<lparr>cfg_maxAttempts = 3, cfg_initialDelay = Finite 1000, cfg_maxDelay = Finite 10000,
      cfg_backoffFactor = Finite 2,
      cfg_shouldRetry = (\<lambda>error. instanceof error NetworkError \<or> instanceof error TimeoutError)\<rparr>"

record 'a axios_response =
  status :: nat
  data :: 'a

definition calculateDelay :: "runtime_math \<Rightarrow> 'e retry_config \<Rightarrow> nat \<Rightarrow> js_number" where
  "calculateDelay math retryConfig attempt =
     (let delay =
            num_times math (cfg_initialDelay retryConfig)
              (Math_pow math (cfg_backoffFactor retryConfig) (Finite (real attempt - 1)))
      in Math_min delay (cfg_maxDelay retryConfig))"

text \<open>
  \<open>executeWithRetry\<close>: the loop every verb (\<open>get\<close>, \<open>post\<close>, \<open>put\<close>, \<open>delete\<close>,
  \<open>upload\<close>, \<open>uploadWithFields\<close>) runs its axios call in. The interceptors only log
  and reject with the error they were given, so \<open>operation k\<close> is the transport's own
  outcome. The call of \<open>logger.warn\<close> before the sleep is not modelled; the private
  \<open>sleep\<close> of the class is the same function as the one of the helpers.
\<close>

function executeWithRetry_loop ::
  "runtime_math \<Rightarrow> 'e retry_config \<Rightarrow> (nat \<Rightarrow> 'e + 'a axios_response) \<Rightarrow> nat \<Rightarrow> 'e option
     \<Rightarrow> ('e, 'a) settled \<times> io_event list"
where
  "executeWithRetry_loop math retryConfig operation attempt lastError =
     (if int attempt \<le> cfg_maxAttempts retryConfig then
        (case operation attempt of
           Inr response \<Rightarrow> (Resolved (data response), [Invoke attempt])
         | Inl error \<Rightarrow>
             if int attempt = cfg_maxAttempts retryConfig \<or> \<not> cfg_shouldRetry retryConfig error
             then (Rejected error, [Invoke attempt])
             else
               (let delay = calculateDelay math retryConfig attempt;
                    rest = executeWithRetry_loop math retryConfig operation (attempt + 1) (Some error)
                in (fst rest, Invoke attempt # sleep delay # snd rest)))
      else
        (case lastError of None \<Rightarrow> (RejectedUndefined, []) | Some e \<Rightarrow> (Rejected e, [])))"
  by pat_completeness auto
termination
  by (relation "measure (\<lambda>(math, retryConfig, operation, attempt, lastError).
                  nat (cfg_maxAttempts retryConfig + 1 - int attempt))") auto

declare executeWithRetry_loop.simps [simp del]

definition executeWithRetry ::
  "runtime_math \<Rightarrow> 'e retry_config \<Rightarrow> (nat \<Rightarrow> 'e + 'a axios_response) \<Rightarrow> ('e, 'a) settled \<times> io_event list"
where
  "executeWithRetry math retryConfig operation =
     executeWithRetry_loop math retryConfig operation 1 None"

section \<open>Example environments\<close>

text \<open>
  Concrete environments for the examples: a file system in which every path exists and
  has the size given, with \<open>path.extname\<close> reading the last four characters, and a
  decoder that reads bytes as characters.
\<close>

definition example_env :: "nat \<Rightarrow> node_env" where
  "example_env sz =
     \<lparr>fs_access = (\<lambda>p. True), fs_stat = (\<lambda>p. Inr sz), fs_readFile = (\<lambda>p. Inr ''content''),
      sha256_hex = (\<lambda>c. ''e3b0c442''), path_extname = (\<lambda>p. drop (length p - 4) p),
      path_basename = (\<lambda>p. p), path_dirname = (\<lambda>p. ''/tmp''),
      path_join = (\<lambda>a b. a @ ''/'' @ b), utf8_toString = map char_of\<rparr>"

text \<open>
  The key of a service account, as JSON text, and its base64 encoding, the value of the
  input \<open>google_play_service_account_json\<close>. \<open>quoted s\<close> is \<open>s\<close> between double quotes.
\<close>

definition quoted :: "string \<Rightarrow> string" where
  "quoted s = [CHR 0x22] @ s @ [CHR 0x22]"

definition example_account_json :: string where
  "example_account_json =
     ''{'' @ quoted ''type'' @ '':'' @ quoted ''service_account'' @ '',''
     @ quoted ''project_id'' @ '':'' @ quoted ''example'' @ '',''
     @ quoted ''private_key'' @ '':'' @ quoted ''key'' @ '',''
     @ quoted ''client_email'' @ '':'' @ quoted ''deploy@example.iam.gserviceaccount.com''
     @ ''}''"

definition example_account_base64 :: string where
  "example_account_base64 =
     ''eyJ0eXBlIjoic2VydmljZV9hY2NvdW50IiwicHJvamVjdF9pZCI6ImV4''
     @ ''YW1wbGUiLCJwcml2YXRlX2tleSI6ImtleSIsImNsaWVudF9lbWFpbCI6''
     @ ''ImRlcGxveUBleGFtcGxlLmlhbS5nc2VydmljZWFjY291bnQuY29tIn0=''"

definition example_inputs :: "platform \<Rightarrow> string \<Rightarrow> action_inputs" where
  "example_inputs p artifact =
     \<lparr>platform = p, appVersion = ''1.2.3'', buildNumber = None, releaseNotes = [],
      artifactPath = artifact, dryRun = False, timeoutMinutes = 30,
      googlePlayServiceAccountJson = example_account_base64,
      googlePlayPackageName = ''com.example.app'',
      googlePlayTrack = ''internal'', appStoreConnectApiKeyId = ''ABCDEFGHIJ'',
      appStoreConnectApiIssuerId = ''issuer'', appStoreConnectApiPrivateKey = ''a2V5'',
      iosBundleId = ''com.example.app''\<rparr>"

text \<open>
  \<open>JSON.parse\<close> on the texts of the examples: the key above and the empty object. No
  example parses another text; there the parser of the examples refuses.
\<close>

definition example_json_parse :: "string \<Rightarrow> js_error + (string \<times> jsval) list" where
  "example_json_parse text =
     (if text = example_account_json
      then Inr [(''type'', JStr ''service_account''), (''project_id'', JStr ''example''),
                (''private_key'', JStr ''key''),
                (''client_email'', JStr ''deploy@example.iam.gserviceaccount.com'')]
      else if text = ''{}'' then Inr []
      else Inl (new_Error ''Unexpected token''))"

text \<open>
  A Google Play API that opens the edit \<open>edit-1\<close>, accepts the bundle as version 42 and
  answers the three later calls as given.
\<close>

definition example_api ::
  "js_error option \<Rightarrow> js_error option \<Rightarrow> js_error option \<Rightarrow> google_play_env"
where
  "example_api updated committed deleted =
     \<lparr>json_parse = example_json_parse,
      edits_insert = Inr (Some ''edit-1''), bundles_upload = (\<lambda>e. Inr (Some 42)),
      tracks_update = (\<lambda>e. updated), edits_commit = (\<lambda>e. committed),
      edits_delete = (\<lambda>e. deleted)\<rparr>"

text \<open>
  An iOS environment in which the upload tool exists and the upload and the removal of
  the key file end as given.
\<close>

definition example_ios_env :: "exec_error + string \<Rightarrow> js_error option \<Rightarrow> ios_env" where
  "example_ios_env uploaded removed =
     \<lparr>os_tmpdir = ''/tmp'', writeFile_error = (\<lambda>p. None), unlink_error = (\<lambda>p. removed),
      altool_available = True, notarytool_available = False,
      exec_altool = (\<lambda>cmd files. uploaded), sanitize = (\<lambda>output. output)\<rparr>"


text \<open>
  The arithmetic of the runtime where it rounds nothing: the product of two integers and
  the power of an integer to a natural exponent, when the operands and the result are at
  most \<open>2 ^ 53\<close> in absolute value. The examples compute nothing else; the value given
  elsewhere (\<open>NaN\<close>) is not the runtime's.
\<close>

definition exactly :: "real \<Rightarrow> bool" where
  "exactly x = (x = real_of_int \<lfloor>x\<rfloor> \<and> \<bar>x\<bar> \<le> 2 ^ 53)"

fun exact_times :: "js_number \<Rightarrow> js_number \<Rightarrow> js_number" where
  "exact_times (Finite a) (Finite b) =
     (if exactly a \<and> exactly b \<and> exactly (a * b) then Finite (a * b) else NaN)"
| "exact_times x y = NaN"

fun exact_pow :: "js_number \<Rightarrow> js_number \<Rightarrow> js_number" where
  "exact_pow (Finite a) (Finite b) =
     (if exactly a \<and> exactly b \<and> 0 \<le> b \<and> exactly (a ^ nat \<lfloor>b\<rfloor>)
      then Finite (a ^ nat \<lfloor>b\<rfloor>) else NaN)"
| "exact_pow x y = NaN"

definition exact_math :: runtime_math where
  "exact_math = \<lparr>num_times = exact_times, Math_pow = exact_pow\<rparr>"
section \<open>Retry: the schedule of attempts and delays\<close>

lemma withRetry_loop_stop:
  fixes operation :: "nat \<Rightarrow> 'e + 'a" and options :: "'e retry_options"
  assumes "int j \<le> maxAttempts options"
    and "(\<exists>v. operation j = Inr v) \<or> int j = maxAttempts options
         \<or> (\<exists>e p. operation j = Inl e \<and> shouldRetry options = Some p \<and> \<not> p e)"
  shows "withRetry_loop math operation options j lastError =
           ((case operation j of Inl e \<Rightarrow> Rejected e | Inr v \<Rightarrow> Resolved v), [Invoke j])"
proof (cases "operation j")
  case (Inl e)
  with assms show ?thesis
    by (subst withRetry_loop.simps) (auto split: option.splits)
next
  case (Inr v)
  with assms show ?thesis
    by (subst withRetry_loop.simps) simp
qed

lemma withRetry_loop_again:
  fixes operation :: "nat \<Rightarrow> 'e + 'a" and options :: "'e retry_options"
  assumes "int a < maxAttempts options" and "operation a = Inl e"
    and "\<forall>p. shouldRetry options = Some p \<longrightarrow> p e"
  shows "withRetry_loop math operation options a lastError =
           (fst (withRetry_loop math operation options (Suc a) (Some e)),
            Invoke a
            # Sleep (setTimeout_delay
                       (Math_min
                          (num_times math (initialDelay options)
                             (Math_pow math (backoffFactor options) (Finite (real a - 1))))
                          (maxDelay options)))
            # snd (withRetry_loop math operation options (Suc a) (Some e)))"
  using assms
  by (subst withRetry_loop.simps) (auto simp: Let_def sleep_def split: option.splits)

lemma withRetry_loop_run:
  fixes operation :: "nat \<Rightarrow> 'e + 'a" and options :: "'e retry_options"
  assumes "a \<le> j" and "int j \<le> maxAttempts options"
    and "\<forall>k. a \<le> k \<and> k < j \<longrightarrow>
           (\<exists>e. operation k = Inl e \<and> (\<forall>p. shouldRetry options = Some p \<longrightarrow> p e))"
    and "(\<exists>v. operation j = Inr v) \<or> int j = maxAttempts options
         \<or> (\<exists>e p. operation j = Inl e \<and> shouldRetry options = Some p \<and> \<not> p e)"
  shows "withRetry_loop math operation options a lastError =
           ((case operation j of Inl e \<Rightarrow> Rejected e | Inr v \<Rightarrow> Resolved v),
            concat (map (\<lambda>k. [Invoke k,
                                Sleep (setTimeout_delay
                                         (Math_min
                                            (num_times math (initialDelay options)
                                               (Math_pow math (backoffFactor options)
                                                  (Finite (real k - 1))))
                                            (maxDelay options)))]) [a..<j]) @ [Invoke j])"
  using assms(1,3)
proof (induction "j - a" arbitrary: a lastError)
  case 0
  then have "a = j" by simp
  then show ?case
    using withRetry_loop_stop [of j options operation math lastError] assms(2,4) by simp
next
  case (Suc n)
  then have lt: "a < j" by simp
  with Suc.prems obtain e where e: "operation a = Inl e"
    "\<forall>p. shouldRetry options = Some p \<longrightarrow> p e" by auto
  have "n = j - Suc a" "Suc a \<le> j" using Suc.hyps(2) lt by simp_all
  moreover have "\<forall>k. Suc a \<le> k \<and> k < j \<longrightarrow>
           (\<exists>e. operation k = Inl e \<and> (\<forall>p. shouldRetry options = Some p \<longrightarrow> p e))"
    using Suc.prems(2) by simp
  ultimately have IH: "withRetry_loop math operation options (Suc a) (Some e) =
           ((case operation j of Inl e \<Rightarrow> Rejected e | Inr v \<Rightarrow> Resolved v),
            concat (map (\<lambda>k. [Invoke k,
                                Sleep (setTimeout_delay
                                         (Math_min
                                            (num_times math (initialDelay options)
                                               (Math_pow math (backoffFactor options)
                                                  (Finite (real k - 1))))
                                            (maxDelay options)))]) [Suc a..<j]) @ [Invoke j])"
    by (rule Suc.hyps(1))
  have "int a < maxAttempts options" using lt assms(2) by simp
  from withRetry_loop_again [of a options operation e math lastError] this e IH lt show ?case
    by (simp add: upt_conv_Cons)
qed

text \<open>With no attempt allowed the operation is never called and \<open>undefined\<close> is thrown.\<close>

lemma withRetry_no_attempts:
  "maxAttempts options < 1 \<Longrightarrow> withRetry math operation options = (RejectedUndefined, [])"
  unfolding withRetry_def by (subst withRetry_loop.simps) simp

text \<open>The same three facts for the loop of the HTTP execution layer.\<close>

lemma executeWithRetry_loop_stop:
  fixes operation :: "nat \<Rightarrow> 'e + 'a axios_response" and retryConfig :: "'e retry_config"
  assumes "int j \<le> cfg_maxAttempts retryConfig"
    and "(\<exists>v. operation j = Inr v) \<or> int j = cfg_maxAttempts retryConfig
         \<or> (\<exists>e. operation j = Inl e \<and> \<not> cfg_shouldRetry retryConfig e)"
  shows "executeWithRetry_loop math retryConfig operation j lastError =
           ((case operation j of Inl e \<Rightarrow> Rejected e | Inr v \<Rightarrow> Resolved (data v)),
            [Invoke j])"
proof (cases "operation j")
  case (Inl e)
  with assms show ?thesis
    by (subst executeWithRetry_loop.simps) auto
next
  case (Inr v)
  with assms show ?thesis
    by (subst executeWithRetry_loop.simps) simp
qed

lemma executeWithRetry_loop_again:
  fixes operation :: "nat \<Rightarrow> 'e + 'a axios_response" and retryConfig :: "'e retry_config"
  assumes "int a < cfg_maxAttempts retryConfig" and "operation a = Inl e"
    and "cfg_shouldRetry retryConfig e"
  shows "executeWithRetry_loop math retryConfig operation a lastError =
           (fst (executeWithRetry_loop math retryConfig operation (Suc a) (Some e)),
            Invoke a
            # Sleep (setTimeout_delay
                       (Math_min
                          (num_times math (cfg_initialDelay retryConfig)
                             (Math_pow math (cfg_backoffFactor retryConfig) (Finite (real a - 1))))
                          (cfg_maxDelay retryConfig)))
            # snd (executeWithRetry_loop math retryConfig operation (Suc a) (Some e)))"
  using assms
  by (subst executeWithRetry_loop.simps) (simp add: Let_def sleep_def calculateDelay_def)

lemma executeWithRetry_loop_run:
  fixes operation :: "nat \<Rightarrow> 'e + 'a axios_response" and retryConfig :: "'e retry_config"
  assumes "a \<le> j" and "int j \<le> cfg_maxAttempts retryConfig"
    and "\<forall>k. a \<le> k \<and> k < j \<longrightarrow> (\<exists>e. operation k = Inl e \<and> cfg_shouldRetry retryConfig e)"
    and "(\<exists>v. operation j = Inr v) \<or> int j = cfg_maxAttempts retryConfig
         \<or> (\<exists>e. operation j = Inl e \<and> \<not> cfg_shouldRetry retryConfig e)"
  shows "executeWithRetry_loop math retryConfig operation a lastError =
           ((case operation j of Inl e \<Rightarrow> Rejected e | Inr v \<Rightarrow> Resolved (data v)),
            concat (map (\<lambda>k. [Invoke k,
                                Sleep (setTimeout_delay
                                         (Math_min
                                            (num_times math (cfg_initialDelay retryConfig)
                                               (Math_pow math (cfg_backoffFactor retryConfig)
                                                  (Finite (real k - 1))))
                                            (cfg_maxDelay retryConfig)))]) [a..<j])
            @ [Invoke j])"
  using assms(1,3)
proof (induction "j - a" arbitrary: a lastError)
  case 0
  then have "a = j" by simp
  then show ?case
    using executeWithRetry_loop_stop [of j retryConfig operation math lastError] assms(2,4)
    by simp
next
  case (Suc n)
  then have lt: "a < j" by simp
  with Suc.prems obtain e where e: "operation a = Inl e" "cfg_shouldRetry retryConfig e"
    by auto
  have "n = j - Suc a" "Suc a \<le> j" using Suc.hyps(2) lt by simp_all
  moreover have "\<forall>k. Suc a \<le> k \<and> k < j \<longrightarrow>
           (\<exists>e. operation k = Inl e \<and> cfg_shouldRetry retryConfig e)"
    using Suc.prems(2) by simp
  ultimately have IH: "executeWithRetry_loop math retryConfig operation (Suc a) (Some e) =
           ((case operation j of Inl e \<Rightarrow> Rejected e | Inr v \<Rightarrow> Resolved (data v)),
            concat (map (\<lambda>k. [Invoke k,
                                Sleep (setTimeout_delay
                                         (Math_min
                                            (num_times math (cfg_initialDelay retryConfig)
                                               (Math_pow math (cfg_backoffFactor retryConfig)
                                                  (Finite (real k - 1))))
                                            (cfg_maxDelay retryConfig)))]) [Suc a..<j])
            @ [Invoke j])"
    by (rule Suc.hyps(1))
  have "int a < cfg_maxAttempts retryConfig" using lt assms(2) by simp
  from executeWithRetry_loop_again [of a retryConfig operation e math lastError] this e IH lt
  show ?case
    by (simp add: upt_conv_Cons)
qed

lemma exact_first_delay:
  "Math_min (num_times exact_math (Finite 3000000000)
               (Math_pow exact_math (Finite 1) (Finite 0)))
     (Finite 3000000000)
   = Finite 3000000000"
  by (simp add: exact_math_def exactly_def)

text \<open>
  Claim C2 as stated fails when \<open>min (d * f ^ (k - 1)) m\<close> is above 2147483647: the value
  is computed and passed to \<open>sleep\<close>, and the timer \<open>sleep\<close> waits on is set to 1 ms.
  Here \<open>d = m = 3000000000\<close> and \<open>f = 1\<close>; the first call fails and the second succeeds.
\<close>

theorem retry_delay_overflow_counterexample:
  "withRetry exact_math (\<lambda>k. if k = 1 then Inl () else Inr True)
     \<lparr>maxAttempts = 2, initialDelay = Finite 3000000000, maxDelay = Finite 3000000000,
      backoffFactor = Finite 1, shouldRetry = None\<rparr>
   = (Resolved True, [Invoke 1, Sleep 1, Invoke 2])
   \<and> Math_min (num_times exact_math (Finite 3000000000)
                 (Math_pow exact_math (Finite 1) (Finite 0)))
       (Finite 3000000000)
     = Finite 3000000000
   \<and> setTimeout_delay (Finite 3000000000) = 1"
proof -
  let ?op = "\<lambda>k::nat. if k = 1 then Inl () else (Inr True :: unit + bool)"
  let ?opts = "\<lparr>maxAttempts = 2, initialDelay = Finite 3000000000,
                 maxDelay = Finite 3000000000, backoffFactor = Finite 1,
                 shouldRetry = (None :: (unit \<Rightarrow> bool) option)\<rparr>"
  have s2: "withRetry_loop exact_math ?op ?opts 2 (Some ()) = (Resolved True, [Invoke 2])"
    using withRetry_loop_stop [of 2 ?opts ?op exact_math "Some ()"] by simp
  have "withRetry_loop exact_math ?op ?opts 1 None
        = (Resolved True, [Invoke 1, Sleep 1, Invoke 2])"
    using withRetry_loop_again [of 1 ?opts ?op "()" exact_math None] s2 exact_first_delay
    by (simp add: numeral_2_eq_2)
  then show ?thesis
    using exact_first_delay by (simp add: withRetry_def)
qed

text \<open>
  Claim C2, amended. For \<open>withRetry\<close> and for \<open>executeWithRetry\<close> of the HTTP layer alike,
  let \<open>j\<close> be the attempt the loop stops at: attempts \<open>1\<close> to \<open>j - 1\<close> fail with errors
  the predicate lets retry (for \<open>withRetry\<close> every error, when the options have no
  predicate), and attempt \<open>j\<close> succeeds, or is the last one allowed, or fails with an
  error the predicate refuses. Then the run is: call 1, sleep, call 2, sleep, ..., call
  \<open>j\<close>. Nothing precedes the first call, and nothing follows call \<open>j\<close>, whose outcome is
  the outcome of the whole. Between call \<open>k\<close> and call \<open>k + 1\<close> the value
  \<open>Math.min(initialDelay * Math.pow(backoffFactor, k - 1), maxDelay)\<close> is computed in
  the arithmetic of the runtime and passed to \<open>sleep\<close>, which waits on a timer set to
  that value cut to whole milliseconds when it is between 1 and 2147483647, and to 1 ms
  otherwise.
\<close>

theorem retry_backoff_schedule:
  fixes operation :: "nat \<Rightarrow> 'e + 'a" and options :: "'e retry_options"
    and request :: "nat \<Rightarrow> 'e + 'b axios_response" and retryConfig :: "'e retry_config"
  shows "(1 \<le> j \<and> int j \<le> maxAttempts options
          \<and> (\<forall>k. 1 \<le> k \<and> k < j \<longrightarrow>
                (\<exists>e. operation k = Inl e \<and> (\<forall>p. shouldRetry options = Some p \<longrightarrow> p e)))
          \<and> ((\<exists>v. operation j = Inr v) \<or> int j = maxAttempts options
              \<or> (\<exists>e p. operation j = Inl e \<and> shouldRetry options = Some p \<and> \<not> p e))
          \<longrightarrow> withRetry math operation options =
                ((case operation j of Inl e \<Rightarrow> Rejected e | Inr v \<Rightarrow> Resolved v),
                 concat (map (\<lambda>k. [Invoke k,
                                     Sleep (setTimeout_delay
                                              (Math_min
                                                 (num_times math (initialDelay options)
                                                    (Math_pow math (backoffFactor options)
                                                       (Finite (real k - 1))))
                                                 (maxDelay options)))]) [1..<j])
                 @ [Invoke j]))
       \<and> (1 \<le> i \<and> int i \<le> cfg_maxAttempts retryConfig
          \<and> (\<forall>k. 1 \<le> k \<and> k < i \<longrightarrow>
                (\<exists>e. request k = Inl e \<and> cfg_shouldRetry retryConfig e))
          \<and> ((\<exists>v. request i = Inr v) \<or> int i = cfg_maxAttempts retryConfig
              \<or> (\<exists>e. request i = Inl e \<and> \<not> cfg_shouldRetry retryConfig e))
          \<longrightarrow> executeWithRetry math retryConfig request =
                ((case request i of Inl e \<Rightarrow> Rejected e | Inr v \<Rightarrow> Resolved (data v)),
                 concat (map (\<lambda>k. [Invoke k,
                                     Sleep (setTimeout_delay
                                              (Math_min
                                                 (num_times math (cfg_initialDelay retryConfig)
                                                    (Math_pow math (cfg_backoffFactor retryConfig)
                                                       (Finite (real k - 1))))
                                                 (cfg_maxDelay retryConfig)))]) [1..<i])
                 @ [Invoke i]))
       \<and> (\<forall>ms. setTimeout_delay (Finite ms)
                = (if 1 \<le> ms \<and> ms \<le> 2147483647 then nat \<lfloor>ms\<rfloor> else 1))
       \<and> setTimeout_delay PosInfinity = 1 \<and> setTimeout_delay NegInfinity = 1
       \<and> setTimeout_delay NaN = 1
       \<and> (\<forall>x y. Math_min (Finite x) (Finite y) = Finite (min x y))"
proof (intro conjI impI allI)
  assume h: "1 \<le> j \<and> int j \<le> maxAttempts options
          \<and> (\<forall>k. 1 \<le> k \<and> k < j \<longrightarrow>
                (\<exists>e. operation k = Inl e \<and> (\<forall>p. shouldRetry options = Some p \<longrightarrow> p e)))
          \<and> ((\<exists>v. operation j = Inr v) \<or> int j = maxAttempts options
              \<or> (\<exists>e p. operation j = Inl e \<and> shouldRetry options = Some p \<and> \<not> p e))"
  show "withRetry math operation options =
                ((case operation j of Inl e \<Rightarrow> Rejected e | Inr v \<Rightarrow> Resolved v),
                 concat (map (\<lambda>k. [Invoke k,
                                     Sleep (setTimeout_delay
                                              (Math_min
                                                 (num_times math (initialDelay options)
                                                    (Math_pow math (backoffFactor options)
                                                       (Finite (real k - 1))))
                                                 (maxDelay options)))]) [1..<j])
                 @ [Invoke j])"
    unfolding withRetry_def
    by (rule withRetry_loop_run) (use h in simp_all)
next
  assume h: "1 \<le> i \<and> int i \<le> cfg_maxAttempts retryConfig
          \<and> (\<forall>k. 1 \<le> k \<and> k < i \<longrightarrow>
                (\<exists>e. request k = Inl e \<and> cfg_shouldRetry retryConfig e))
          \<and> ((\<exists>v. request i = Inr v) \<or> int i = cfg_maxAttempts retryConfig
              \<or> (\<exists>e. request i = Inl e \<and> \<not> cfg_shouldRetry retryConfig e))"
  show "executeWithRetry math retryConfig request =
                ((case request i of Inl e \<Rightarrow> Rejected e | Inr v \<Rightarrow> Resolved (data v)),
                 concat (map (\<lambda>k. [Invoke k,
                                     Sleep (setTimeout_delay
                                              (Math_min
                                                 (num_times math (cfg_initialDelay retryConfig)
                                                    (Math_pow math (cfg_backoffFactor retryConfig)
                                                       (Finite (real k - 1))))
                                                 (cfg_maxDelay retryConfig)))]) [1..<i])
                 @ [Invoke i])"
    unfolding executeWithRetry_def
    by (rule executeWithRetry_loop_run) (use h in simp_all)
qed simp_all


theorem retry_backoff_schedule_witness:
  "withRetry exact_math
     (\<lambda>k. if k < 5 then Inl (new_NetworkError ''503'' None None) else Inr (200::nat))
     \<lparr>maxAttempts = 6, initialDelay = Finite 1000, maxDelay = Finite 5000,
      backoffFactor = Finite 2, shouldRetry = Some (\<lambda>e. instanceof e NetworkError)\<rparr>
   = (Resolved 200,
      [Invoke 1, Sleep 1000, Invoke 2, Sleep 2000, Invoke 3, Sleep 4000, Invoke 4, Sleep 5000,
       Invoke 5])
   \<and> executeWithRetry exact_math DEFAULT_RETRY_CONFIG
       (\<lambda>k. if k < 3 then Inl (new_NetworkError ''503'' None None)
            else Inr \<lparr>status = 200, data = True\<rparr>)
     = (Resolved True, [Invoke 1, Sleep 1000, Invoke 2, Sleep 2000, Invoke 3])"
proof -
  let ?op = "\<lambda>k::nat. if k < 5 then Inl (new_NetworkError ''503'' None None)
                       else Inr (200::nat)"
  let ?opts = "\<lparr>maxAttempts = 6, initialDelay = Finite 1000, maxDelay = Finite 5000,
                 backoffFactor = Finite 2,
                 shouldRetry = Some (\<lambda>e. instanceof e NetworkError)\<rparr>"
  let ?req = "\<lambda>k::nat. if k < 3 then Inl (new_NetworkError ''503'' None None)
                        else Inr \<lparr>status = 200, data = True\<rparr>"
  have u: "[Suc 0..<5] = [Suc 0, 2, 3, 4]" "[Suc 0..<3] = [Suc 0, 2]"
    by (simp_all add: upt_conv_Cons)
  have n: "instanceof (new_NetworkError ''503'' None None) NetworkError"
    by (simp add: instanceof_def new_NetworkError_def new_DeploymentError_def)
  have c: "cfg_maxAttempts DEFAULT_RETRY_CONFIG = 3"
          "cfg_initialDelay DEFAULT_RETRY_CONFIG = Finite 1000"
          "cfg_maxDelay DEFAULT_RETRY_CONFIG = Finite 10000"
          "cfg_backoffFactor DEFAULT_RETRY_CONFIG = Finite 2"
          "cfg_shouldRetry DEFAULT_RETRY_CONFIG (new_NetworkError ''503'' None None)"
    using n by (simp_all add: DEFAULT_RETRY_CONFIG_def)
  note t = retry_backoff_schedule [where j = 5 and options = ?opts and operation = ?op
             and math = exact_math and i = 3 and retryConfig = DEFAULT_RETRY_CONFIG
             and request = ?req]
  from t [THEN conjunct1] have a: "withRetry exact_math ?op ?opts
     = (Resolved 200,
        [Invoke 1, Sleep 1000, Invoke 2, Sleep 2000, Invoke 3, Sleep 4000, Invoke 4,
         Sleep 5000, Invoke 5])"
    using n by (simp add: u exact_math_def exactly_def)
  from t [THEN conjunct2, THEN conjunct1] have b: "executeWithRetry exact_math
       DEFAULT_RETRY_CONFIG ?req
     = (Resolved True, [Invoke 1, Sleep 1000, Invoke 2, Sleep 2000, Invoke 3])"
    using c by (simp add: u exact_math_def exactly_def)
  from a b show ?thesis by simp
qed

section \<open>HTTP execution layer: what the default policy retries\<close>

text \<open>
  The transport never rejects with a \<open>NetworkError\<close> or a \<open>TimeoutError\<close>, and the layer
  does not translate what it rejects with: the default predicate refuses every
  \<open>AxiosError\<close>, whatever its status.
\<close>

lemma default_policy_refuses_axios_errors:
  "\<not> cfg_shouldRetry DEFAULT_RETRY_CONFIG (axios_error msg st)"
  by (simp add: DEFAULT_RETRY_CONFIG_def axios_error_def instanceof_def)

text \<open>
  Had the first failure been a \<open>NetworkError\<close>, the default policy would retry once, after
  1000 ms.
\<close>

lemma executeWithRetry_retries_NetworkError:
  "executeWithRetry exact_math DEFAULT_RETRY_CONFIG
     (\<lambda>k. if k = 1 then Inl (new_NetworkError msg p d) else Inr \<lparr>status = 200, data = body\<rparr>)
   = (Resolved body, [Invoke 1, Sleep 1000, Invoke 2])"
proof -
  let ?op = "\<lambda>k::nat. if k = 1 then Inl (new_NetworkError msg p d)
                       else Inr \<lparr>status = 200, data = body\<rparr>"
  have r: "cfg_shouldRetry DEFAULT_RETRY_CONFIG (new_NetworkError msg p d)"
    by (simp add: DEFAULT_RETRY_CONFIG_def new_NetworkError_def new_DeploymentError_def
          instanceof_def)
  have m: "cfg_maxAttempts DEFAULT_RETRY_CONFIG = 3"
    by (simp add: DEFAULT_RETRY_CONFIG_def)
  have d1: "setTimeout_delay
              (Math_min
                 (num_times exact_math (cfg_initialDelay DEFAULT_RETRY_CONFIG)
                    (Math_pow exact_math (cfg_backoffFactor DEFAULT_RETRY_CONFIG)
                       (Finite (real (Suc 0) - 1))))
                 (cfg_maxDelay DEFAULT_RETRY_CONFIG)) = 1000"
    by (simp add: DEFAULT_RETRY_CONFIG_def exact_math_def exactly_def)
  have s2: "executeWithRetry_loop exact_math DEFAULT_RETRY_CONFIG ?op 2
              (Some (new_NetworkError msg p d)) = (Resolved body, [Invoke 2])"
    using executeWithRetry_loop_stop [of 2 DEFAULT_RETRY_CONFIG ?op exact_math] m by simp
  have "executeWithRetry_loop exact_math DEFAULT_RETRY_CONFIG ?op 1 None =
          (Resolved body, [Invoke 1, Sleep 1000, Invoke 2])"
    using executeWithRetry_loop_again
            [of 1 DEFAULT_RETRY_CONFIG ?op "new_NetworkError msg p d" exact_math]
      r m d1 s2
    by (simp add: numeral_2_eq_2)
  then show ?thesis by (simp add: executeWithRetry_def)
qed

text \<open>
  Claim C1, at the scenario it names. The transport answers the first call with status
  503, which axios rejects with an \<open>AxiosError\<close>, and would answer the second with 200.
  Under the default policy the first rejection is not retried: it is thrown as it is,
  after one call and no delay.
\<close>

theorem executeWithRetry_503_then_200:
  "executeWithRetry math DEFAULT_RETRY_CONFIG
     (\<lambda>k. if k = 1 then Inl (axios_error ''Request failed with status code 503'' (Some 503))
          else Inr \<lparr>status = 200, data = body\<rparr>)
   = (Rejected (axios_error ''Request failed with status code 503'' (Some 503)), [Invoke 1])"
proof -
  have "\<not> cfg_shouldRetry DEFAULT_RETRY_CONFIG
            (axios_error ''Request failed with status code 503'' (Some 503))"
    by (rule default_policy_refuses_axios_errors)
  moreover have "cfg_maxAttempts DEFAULT_RETRY_CONFIG = 3"
    by (simp add: DEFAULT_RETRY_CONFIG_def)
  ultimately show ?thesis
    unfolding executeWithRetry_def
    by (subst executeWithRetry_loop.simps) simp
qed

section \<open>Android: compensating deletion of the edit session\<close>

lemma session_steps_no_delete:
  "session_steps api this entropy clk inputs editId = (r, cs) \<Longrightarrow> EditsDelete e \<notin> set cs"
  by (auto simp: session_steps_def uploadAAB_def updateTrack_def commitEditSession_def Let_def
           split: if_splits sum.splits option.splits prod.splits)

lemma createEditSession_no_delete:
  "createEditSession api this = (r, c0) \<Longrightarrow> EditsDelete e \<notin> set c0"
  by (auto simp: createEditSession_def Let_def split: if_splits)

lemma calls_ignore_delete:
  "createEditSession (api\<lparr>edits_delete := d\<rparr>) this = createEditSession api this"
  "uploadAAB (api\<lparr>edits_delete := d\<rparr>) this editId artifact = uploadAAB api this editId artifact"
  "updateTrack (api\<lparr>edits_delete := d\<rparr>) this editId inputs vc =
     updateTrack api this editId inputs vc"
  "commitEditSession (api\<lparr>edits_delete := d\<rparr>) this editId = commitEditSession api this editId"
  by (simp_all add: createEditSession_def uploadAAB_def updateTrack_def commitEditSession_def)

lemma steps_ignore_delete:
  "session_steps (api\<lparr>edits_delete := d\<rparr>) this entropy clk inputs editId =
     session_steps api this entropy clk inputs editId"
  by (simp add: session_steps_def calls_ignore_delete cong: prod.case_cong sum.case_cong)

text \<open>
  Claim C4. On an initialised deployer: when the session is open and a later step
  (bundle upload, track assignment or commit) fails, the cleanup's \<open>edits.delete\<close> of
  that session is the last call made and the error of the failed step is the outcome,
  whatever \<open>edits.delete\<close> answers; when opening the session fails, that error is the
  outcome and no \<open>edits.delete\<close> is among the calls.
\<close>

theorem android_compensating_deletion:
  assumes "androidPublisher this"
  shows "(createEditSession api this = (Inr editId, c0)
          \<and> session_steps api this entropy clk inputs editId = (Inl error, cs)
          \<longrightarrow> performGooglePlayDeployment api this entropy clk inputs
                = (Inl error, c0 @ cs @ [EditsDelete editId])
              \<and> (\<forall>d. fst (performGooglePlayDeployment (api\<lparr>edits_delete := d\<rparr>) this
                              entropy clk inputs) = Inl error))
       \<and> (createEditSession api this = (Inl error, c0)
          \<longrightarrow> performGooglePlayDeployment api this entropy clk inputs = (Inl error, c0)
              \<and> (\<forall>e. EditsDelete e \<notin> set c0))"
proof (intro conjI impI allI)
  assume h: "createEditSession api this = (Inr editId, c0)
          \<and> session_steps api this entropy clk inputs editId = (Inl error, cs)"
  then show "performGooglePlayDeployment api this entropy clk inputs
                = (Inl error, c0 @ cs @ [EditsDelete editId])"
    using assms
    by (simp add: performGooglePlayDeployment_def cleanupEditSession_def split: option.splits)
  fix d
  from h show "fst (performGooglePlayDeployment (api\<lparr>edits_delete := d\<rparr>) this
                              entropy clk inputs) = Inl error"
    using assms
    by (simp add: performGooglePlayDeployment_def steps_ignore_delete calls_ignore_delete)
next
  assume h: "createEditSession api this = (Inl error, c0)"
  then show "performGooglePlayDeployment api this entropy clk inputs = (Inl error, c0)"
    using assms by (simp add: performGooglePlayDeployment_def)
  fix e
  from h show "EditsDelete e \<notin> set c0" by (rule createEditSession_no_delete)
qed


theorem android_compensating_deletion_witness:
  "performGooglePlayDeployment
     (example_api (Some (new_Error ''quota'')) None (Some (new_Error ''gone'')))
     \<lparr>androidPublisher = True, thisPackageName = ''com.example.app''\<rparr> (''t'', ''r'')
     \<lparr>t_start = 0, t_end = 5, t_error = 7\<rparr> (example_inputs android ''app.aab'')
   = (Inl (new_NetworkError ''Failed to update Google Play track: quota'' (Some android) None),
      [EditsInsert, BundlesUpload ''edit-1'', TracksUpdate ''edit-1'', EditsDelete ''edit-1''])
   \<and> performGooglePlayDeployment
     ((example_api None None None)\<lparr>edits_insert := Inr None\<rparr>)
     \<lparr>androidPublisher = True, thisPackageName = ''com.example.app''\<rparr> (''t'', ''r'')
     \<lparr>t_start = 0, t_end = 5, t_error = 7\<rparr> (example_inputs android ''app.aab'')
   = (Inl (new_NetworkError
             ''Failed to create Google Play edit session: Failed to create edit session - no edit ID returned''
             (Some android) None),
      [EditsInsert])"
proof -
  let ?dep = "\<lparr>androidPublisher = True, thisPackageName = ''com.example.app''\<rparr>"
  let ?api1 = "example_api (Some (new_Error ''quota'')) None (Some (new_Error ''gone''))"
  let ?api2 = "(example_api None None None)\<lparr>edits_insert := Inr None\<rparr>"
  let ?clk = "\<lparr>t_start = 0, t_end = 5, t_error = 7\<rparr>"
  let ?inputs = "example_inputs android ''app.aab''"
  have p: "androidPublisher ?dep" by simp
  have c1: "createEditSession ?api1 ?dep = (Inr ''edit-1'', [EditsInsert])"
    by (simp add: createEditSession_def example_api_def)
  have s1: "session_steps ?api1 ?dep (''t'', ''r'') ?clk ?inputs ''edit-1''
            = (Inl (new_NetworkError ''Failed to update Google Play track: quota''
                      (Some android) None),
               [BundlesUpload ''edit-1'', TracksUpdate ''edit-1''])"
    by (simp add: session_steps_def uploadAAB_def updateTrack_def example_api_def new_Error_def)
  have c2: "createEditSession ?api2 ?dep
            = (Inl (new_NetworkError
                      ''Failed to create Google Play edit session: Failed to create edit session - no edit ID returned''
                      (Some android) None),
               [EditsInsert])"
    by (simp add: createEditSession_def example_api_def new_Error_def)
  from android_compensating_deletion [OF p, of ?api1 "''edit-1''" "[EditsInsert]"
      "(''t'', ''r'')" ?clk ?inputs _ "[BundlesUpload ''edit-1'', TracksUpdate ''edit-1'']"]
    c1 s1
  have r1: "performGooglePlayDeployment ?api1 ?dep (''t'', ''r'') ?clk ?inputs
            = (Inl (new_NetworkError ''Failed to update Google Play track: quota''
                      (Some android) None),
               [EditsInsert, BundlesUpload ''edit-1'', TracksUpdate ''edit-1'',
                EditsDelete ''edit-1''])"
    by simp
  from android_compensating_deletion [OF p, of ?api2 _ "[EditsInsert]"] c2
  have r2: "performGooglePlayDeployment ?api2 ?dep (''t'', ''r'') ?clk ?inputs
            = (Inl (new_NetworkError
                      ''Failed to create Google Play edit session: Failed to create edit session - no edit ID returned''
                      (Some android) None),
               [EditsInsert])"
    by simp
  from r1 r2 show ?thesis by simp
qed

section \<open>Artifact size: the hard ceiling\<close>

lemma max_sizes:
  "getMaxArtifactSize android = 209715200" "getMaxArtifactSize ios = 262144000"
  by simp_all

lemma expected_extension:
  "(if p = android then ''.aab'' else ''.ipa'') = getExpectedArtifactExtension p"
  by (cases p) simp_all

lemma hard_ceiling:
  "(if p = android then 200 * 1024 * 1024 else 250 * 1024 * 1024) = getMaxArtifactSize p"
  by (cases p) simp_all

text \<open>
  Claim C9. For an artifact that exists, whose information can be read and whose
  extension (in lower case) is the platform's, the hard check of the orchestrator and
  the validation of the deployer both pass exactly when the size is at most the
  ceiling, 200 MiB for Android and 250 MiB for iOS: a size equal to the ceiling passes,
  only a greater one is rejected.
\<close>

theorem size_at_ceiling_passes:
  assumes "exists env (artifactPath inputs)"
    and "getFileInfo env (artifactPath inputs) = Inr info"
    and "toLowerCase (extension info) = getExpectedArtifactExtension (platform inputs)"
  shows "(action_validateArtifact env inputs = Inr ()
            \<longleftrightarrow> fsize info \<le> getMaxArtifactSize (platform inputs))
       \<and> (deployer_validateArtifact env (platform inputs) (artifactPath inputs)
            \<longleftrightarrow> fsize info \<le> getMaxArtifactSize (platform inputs))
       \<and> getMaxArtifactSize android = 200 * 1024 * 1024
       \<and> getMaxArtifactSize ios = 250 * 1024 * 1024"
proof -
  have a: "action_validateArtifact env inputs = Inr ()
            \<longleftrightarrow> fsize info \<le> getMaxArtifactSize (platform inputs)"
    using assms
    by (simp add: action_validateArtifact_def expected_extension hard_ceiling Let_def
          del: getMaxArtifactSize.simps) 
  have d: "deployer_validateArtifact env (platform inputs) (artifactPath inputs)
            \<longleftrightarrow> fsize info \<le> getMaxArtifactSize (platform inputs)"
    using assms
    by (simp add: deployer_validateArtifact_def Let_def del: getMaxArtifactSize.simps) 
  from a d show ?thesis by simp
qed

lemma example_info:
  "getFileInfo (example_env sz) p =
     Inr \<lparr>fsize = sz, checksum = ''e3b0c442'', extension = drop (length p - 4) p,
          basename = p, directory = ''/tmp''\<rparr>"
  by (simp add: getFileInfo_def getFileSize_def getFileChecksum_def readFile_def example_env_def)

theorem size_at_ceiling_passes_witness:
  "action_validateArtifact (example_env 209715200) (example_inputs android ''app.aab'') = Inr ()
   \<and> deployer_validateArtifact (example_env 209715200) android ''app.aab''
   \<and> action_validateArtifact (example_env 209715201) (example_inputs android ''app.aab'')
       \<noteq> Inr ()
   \<and> action_validateArtifact (example_env 262144000) (example_inputs ios ''App.IPA'') = Inr ()
   \<and> deployer_validateArtifact (example_env 262144000) ios ''App.IPA''"
proof -
  have e: "\<And>sz. exists (example_env sz) ''app.aab''" "\<And>sz. exists (example_env sz) ''App.IPA''"
    by (simp_all add: exists_def example_env_def)
  have x: "toLowerCase ''.aab'' = ''.aab''" "toLowerCase ''.IPA'' = ''.ipa''"
    by (simp_all add: toLowerCase_def lower_char_def)
  have i: "artifactPath (example_inputs p a) = a" "platform (example_inputs p a) = p" for p a
    by (simp_all add: example_inputs_def)
  from size_at_ceiling_passes [of "example_env 209715200" "example_inputs android ''app.aab''"]
    size_at_ceiling_passes [of "example_env 209715201" "example_inputs android ''app.aab''"]
    size_at_ceiling_passes [of "example_env 262144000" "example_inputs ios ''App.IPA''"]
  show ?thesis
    by (simp add: e x i example_info)
qed

section \<open>Orchestrator: an artifact above the hard ceiling\<close>

lemma round_MB_ceiling: "string_of_nat (round_MB (200 * 1024 * 1024)) = ''200''"
  by (simp add: round_MB_def string_of_nat.simps digit_char_def)

lemma example_exists: "exists (example_env sz) p"
  by (simp add: exists_def example_env_def)

lemma example_inputs_fields:
  "platform (example_inputs p a) = p" "artifactPath (example_inputs p a) = a"
  "dryRun (example_inputs p a) = False" "appVersion (example_inputs p a) = ''1.2.3''"
  by (simp_all add: example_inputs_def)

lemma lower_aab: "toLowerCase ''.aab'' = ''.aab''"
  by (simp add: toLowerCase_def lower_char_def)

text \<open>
  Claim C5 as stated fails: for an Android bundle of 200 MiB and one byte the
  orchestrator's validation throws no \<open>ArtifactError\<close> with the code
  \<open>ARTIFACT_TOO_LARGE\<close>. What it throws is a plain \<open>DeploymentError\<close> (next theorem);
  an \<open>ArtifactError\<close> always has the code \<open>ARTIFACT_ERROR\<close>.
\<close>

theorem oversized_android_artifact_counterexample:
  "\<not> (\<exists>e. action_validateArtifact (example_env (200 * 1024 * 1024 + 1))
               (example_inputs android ''app.aab'') = Inl e
           \<and> instanceof e ArtifactError \<and> code e = Some ''ARTIFACT_TOO_LARGE'')"
proof -
  have "string_of_nat (round_MB (200 * 1024 * 1024 + 1)) = ''200''"
    by (simp add: round_MB_def string_of_nat.simps digit_char_def)
  then have "action_validateArtifact (example_env (200 * 1024 * 1024 + 1))
          (example_inputs android ''app.aab'')
        = Inl (new_DeploymentError
                 ''Artifact size (200MB) exceeds maximum allowed size (200MB)''
                 ''ARTIFACT_TOO_LARGE'' (Some android) None False)"
    using round_MB_ceiling
    by (simp add: action_validateArtifact_def example_info example_exists
          example_inputs_fields lower_aab)
  then show ?thesis
    by (simp add: new_DeploymentError_def instanceof_def)
qed

text \<open>
  Claim C5, amended. For an Android request whose artifact exists, can be read, has the
  extension \<open>.aab\<close> (in any case) and is larger than 200 MiB, the orchestrator's
  validation throws a \<open>DeploymentError\<close> with the code \<open>ARTIFACT_TOO_LARGE\<close>, and the
  deployment step ends there: no deployer is made and no deployment started, so nothing
  is sent; its caller receives the error wrapped again, with the code
  \<open>DeploymentError\<close>.
\<close>

theorem oversized_android_artifact_rejected:
  assumes "platform inputs = android"
    and "exists env (artifactPath inputs)"
    and "getFileInfo env (artifactPath inputs) = Inr info"
    and "toLowerCase (extension info) = ''.aab''"
    and "200 * 1024 * 1024 < fsize info"
  shows "action_validateArtifact env inputs
           = Inl (new_DeploymentError
                    (''Artifact size ('' @ string_of_nat (round_MB (fsize info))
                     @ ''MB) exceeds maximum allowed size (200MB)'')
                    ''ARTIFACT_TOO_LARGE'' (Some android) None False)
         \<and> performDeployment env inputs loop deployment start now
           = (Some (Inl (new_DeploymentError
                    (''Artifact size ('' @ string_of_nat (round_MB (fsize info))
                     @ ''MB) exceeds maximum allowed size (200MB)'')
                    ''DeploymentError'' (Some android)
                    (Some [(''duration'', JNum (now - start)),
                           (''dryRun'', JBool (dryRun inputs)),
                           (''version'', JStr (appVersion inputs))])
                    False)),
              [])"
proof -
  have v: "action_validateArtifact env inputs
           = Inl (new_DeploymentError
                    (''Artifact size ('' @ string_of_nat (round_MB (fsize info))
                     @ ''MB) exceeds maximum allowed size (200MB)'')
                    ''ARTIFACT_TOO_LARGE'' (Some android) None False)"
    using assms round_MB_ceiling
    by (simp add: action_validateArtifact_def)
  show ?thesis
    unfolding v performDeployment_def
    using assms(1)
    by (simp add: enhance_error_def new_DeploymentError_def instanceof_def)
qed

theorem oversized_android_artifact_rejected_witness:
  "performDeployment (example_env (200 * 1024 * 1024 + 1)) (example_inputs android ''app.aab'')
     \<lparr>lateness = 0, timerFirst = True\<rparr> None 10 12
   = (Some (Inl (new_DeploymentError
                    ''Artifact size (200MB) exceeds maximum allowed size (200MB)''
                    ''DeploymentError'' (Some android)
                    (Some [(''duration'', JNum 2), (''dryRun'', JBool False),
                           (''version'', JStr ''1.2.3'')])
                    False)), [])"
proof -
  let ?env = "example_env (200 * 1024 * 1024 + 1)"
  let ?inputs = "example_inputs android ''app.aab''"
  let ?info = "\<lparr>fsize = 200 * 1024 * 1024 + 1, checksum = ''e3b0c442'', extension = ''.aab'',
                basename = ''app.aab'', directory = ''/tmp''\<rparr>"
  have 1: "platform ?inputs = android" by (simp add: example_inputs_def)
  have 2: "exists ?env (artifactPath ?inputs)" by (simp add: exists_def example_env_def)
  have 3: "getFileInfo ?env (artifactPath ?inputs) = Inr ?info"
    by (simp add: example_info example_inputs_def)
  have 4: "toLowerCase (extension ?info) = ''.aab''"
    by (simp add: toLowerCase_def lower_char_def)
  have 5: "200 * 1024 * 1024 < fsize ?info" by simp
  have 6: "string_of_nat (round_MB (fsize ?info)) = ''200''"
    by (simp add: round_MB_def string_of_nat.simps digit_char_def)
  from oversized_android_artifact_rejected
         [OF 1 2 3 4 5, where loop = "\<lparr>lateness = 0, timerFirst = True\<rparr>"
            and deployment = None and start = 10 and now = 12]
  show ?thesis
    unfolding 6 by (simp add: example_inputs_def)
qed

section \<open>Input validation: the advisory ceiling\<close>

lemma example_size: "getFileSize (example_env sz) p = Inr sz"
  by (simp add: getFileSize_def example_env_def)

text \<open>
  Claim C6 as stated fails: an Android bundle of 1000 bytes is below the advisory
  ceiling and its name ends in \<open>.aab\<close>, yet the pass adds a warning about it.
\<close>

theorem small_artifact_warning_counterexample:
  "validator_validateArtifact (example_env 1000) ''app.aab'' android [] []
   = ([], [''Artifact size is unusually small, please verify the file is correct''])
   \<and> 1000 < (150 * 1024 * 1024 :: nat)
   \<and> endsWith (toLowerCase ''app.aab'') ''.aab''"
  by (simp add: validator_validateArtifact_def example_exists example_size endsWith_def
        toLowerCase_def lower_char_def)

text \<open>
  Claim C6, amended. For an artifact that exists, whose path ends (in lower case) in the
  platform's extension and whose size can be read: a size from 1 MiB up to the advisory
  ceiling (150 MiB Android, 200 MiB iOS) adds no error and no warning; a size above
  the advisory ceiling adds one warning and no error, however large it is; a size
  below 1 MiB adds the warning that the artifact is unusually small.
\<close>

theorem advisory_ceiling_warns:
  assumes "exists env artifact"
    and "endsWith (toLowerCase artifact) (getExpectedArtifactExtension p)"
    and "getFileSize env artifact = Inr sz"
  shows "(1024 * 1024 \<le> sz \<and> sz \<le> (if p = android then 150 * 1024 * 1024 else 200 * 1024 * 1024)
          \<longrightarrow> validator_validateArtifact env artifact p errors warnings = (errors, warnings))
       \<and> ((if p = android then 150 * 1024 * 1024 else 200 * 1024 * 1024) < sz
          \<longrightarrow> validator_validateArtifact env artifact p errors warnings
              = (errors,
                 warnings @ [''Artifact size ('' @ string_of_nat (round_MB sz)
                             @ ''MB) is larger than recommended (''
                             @ (if p = android then ''150'' else ''200'') @ ''MB)'']))
       \<and> (sz < 1024 * 1024
          \<longrightarrow> validator_validateArtifact env artifact p errors warnings
              = (errors,
                 warnings
                 @ [''Artifact size is unusually small, please verify the file is correct'']))"
proof -
  have r: "string_of_nat (round_MB (150 * 1024 * 1024)) = ''150''"
    "string_of_nat (round_MB (200 * 1024 * 1024)) = ''200''"
    by (simp_all add: round_MB_def string_of_nat.simps digit_char_def)
  show ?thesis
  proof (cases p)
    case android
    with assms r show ?thesis
      by (simp add: validator_validateArtifact_def Let_def)
  next
    case ios
    with assms r show ?thesis
      by (simp add: validator_validateArtifact_def Let_def)
  qed
qed

theorem advisory_ceiling_warns_witness:
  "validator_validateArtifact (example_env (100 * 1024 * 1024)) ''app.aab'' android [] [] = ([], [])
   \<and> validator_validateArtifact (example_env (180 * 1024 * 1024)) ''app.aab'' android [] []
     = ([], [''Artifact size (180MB) is larger than recommended (150MB)''])
   \<and> validator_validateArtifact (example_env 1000) ''App.IPA'' ios [] []
     = ([], [''Artifact size is unusually small, please verify the file is correct''])"
proof -
  have x: "endsWith (toLowerCase ''app.aab'') (getExpectedArtifactExtension android)"
    "endsWith (toLowerCase ''App.IPA'') (getExpectedArtifactExtension ios)"
    by (simp_all add: endsWith_def toLowerCase_def lower_char_def)
  have m: "string_of_nat (round_MB (180 * 1024 * 1024)) = ''180''"
    by (simp add: round_MB_def string_of_nat.simps digit_char_def)
  from advisory_ceiling_warns [OF example_exists x(1) example_size, of "100 * 1024 * 1024" "[]" "[]"]
    advisory_ceiling_warns [OF example_exists x(1) example_size, of "180 * 1024 * 1024" "[]" "[]"]
    advisory_ceiling_warns [OF example_exists x(2) example_size, of 1000 "[]" "[]"] m
  show ?thesis by simp
qed

section \<open>Bounded execution: timeout and abort\<close>

lemma onEvent_keeps_settled:
  "settledAs s = Some x \<Longrightarrow> settledAs (onEvent config s ev) = Some x"
  by (cases ev; cases "snd ev")
     (auto simp: settle_def clearTimeout_def split: option.splits)

lemma onTimeout_keeps_settled:
  "settledAs s = Some x \<Longrightarrow> settledAs (onTimeout config t s) = Some x"
  by (simp add: onTimeout_def settle_def)

lemma deliver_keeps_settled:
  "settledAs s = Some x \<Longrightarrow> settledAs (deliver config loop s externals) = Some x"
proof (induction externals arbitrary: s)
  case Nil
  then show ?case by (simp add: onTimeout_keeps_settled)
next
  case (Cons a externals)
  obtain t ev where a: "a = (t, ev)" by (cases a)
  show ?case
    unfolding a deliver.simps
    by (rule Cons.IH) (simp add: Cons.prems onEvent_keeps_settled onTimeout_keeps_settled)
qed





lemma withTimeout_first_rejection:
  "\<not> timerBefore config loop t \<Longrightarrow>
   withTimeout config loop ((t, PromiseRejected error) # rest) = Some (t, Inl error)"
  by (simp add: withTimeout_def deliver_keeps_settled settle_def clearTimeout_def)

lemma withTimeout_first_resolution:
  "\<not> timerBefore config loop t \<Longrightarrow>
   withTimeout config loop ((t, PromiseResolved result) # rest) = Some (t, Inr result)"
  by (simp add: withTimeout_def deliver_keeps_settled settle_def clearTimeout_def)


text \<open>The wrapper always settles: by what happens outside, or else by its timer.\<close>

lemma withTimeout_settles: "\<exists>r. withTimeout config loop externals = Some r"
proof -
  have "timerSet s \<or> settledAs s \<noteq> None \<Longrightarrow>
        settledAs (deliver config loop s externals) \<noteq> None" for s :: "'a wrapper_state"
  proof (induction externals arbitrary: s)
    case Nil
    then show ?case by (auto simp: onTimeout_def settle_def)
  next
    case (Cons a externals)
    obtain t ev where a: "a = (t, ev)" by (cases a)
    have "settledAs (onEvent config
             (if timerSet s \<and> timerBefore config loop t
              then onTimeout config (timeoutAt config loop) s else s) (t, ev)) \<noteq> None
          \<or> timerSet (onEvent config
             (if timerSet s \<and> timerBefore config loop t
              then onTimeout config (timeoutAt config loop) s else s) (t, ev))"
      using Cons.prems
      by (cases ev) (auto simp: onTimeout_def settle_def clearTimeout_def split: option.splits)
    then show ?case
      unfolding a deliver.simps by (intro Cons.IH) blast
  qed
  then show ?thesis by (simp add: withTimeout_def)
qed






section \<open>Error propagation from the deployer to the orchestrator\<close>

text \<open>
  A deployment that settles before the deadline reaches the wrapper before the timer's
  callback can run: the orchestrator's deadlines are all timers the runtime sets as
  asked.
\<close>

lemma deadline_not_before:
  assumes "timeoutMinutes inputs \<le> 120" and "t < timeoutMinutes inputs * 60 * 1000"
  shows "\<not> timerBefore \<lparr>timeoutMs = timeoutMinutes inputs * 60 * 1000,
                         signal = Some (AbortSignal False)\<rparr> loop t"
proof -
  have "1 \<le> real (timeoutMinutes inputs * 60 * 1000)"
    using assms(2) by simp
  moreover have "real (timeoutMinutes inputs * 60 * 1000) \<le> 2147483647"
    using assms(1) by simp
  ultimately have "setTimeout_delay (Finite (real (timeoutMinutes inputs * 60 * 1000)))
                   = timeoutMinutes inputs * 60 * 1000"
    by (simp only: setTimeout_delay.simps floor_of_nat nat_int if_True simp_thms)
  with assms(2) show ?thesis
    by (simp add: timerBefore_def timeoutAt_def)
qed

lemma performDeployment_rejected:
  assumes "action_validateArtifact env inputs = Inr ()"
    and "timeoutMinutes inputs \<le> 120" and "t < timeoutMinutes inputs * 60 * 1000"
  shows "performDeployment env inputs loop (Some (t, Inl d)) start now
         = (Some (Inl (enhance_error inputs start now d)),
            [CreateDeployer (platform inputs), DeployStarted])"
  using assms(1) deadline_not_before [OF assms(2,3), of loop]
  by (simp add: performDeployment_def settlement_def withTimeout_first_rejection)

lemma handled_is_plain_DeploymentError:
  "cls (handleDeploymentError p e inputs start operation now) = DeploymentError"
  "message (handleDeploymentError p e inputs start operation now) = message e"
  by (simp_all add: handleDeploymentError_def new_DeploymentError_def Let_def)

lemma enhance_handled:
  "enhance_error inputs start now (handleDeploymentError p e inputs' start' operation now')
   = new_DeploymentError (message e) ''DeploymentError'' (Some (platform inputs))
       (Some [(''duration'', JNum (now - start)), (''dryRun'', JBool (dryRun inputs)),
              (''version'', JStr (appVersion inputs))])
       False"
  by (simp add: enhance_error_def handled_is_plain_DeploymentError instanceof_def)

text \<open>
  Claim C3, amended. When the orchestrator's validation passes and the lifecycle of the
  platform's deployer raises an error \<open>e\<close>, the deployer rejects with one
  \<open>DeploymentError\<close>: the message of \<open>e\<close>, the class name of \<open>e\<close> as code, the
  platform, and as details the operation label, the duration, the version, the build
  number and the dry-run flag. When that rejection comes before the deadline (which is
  between 1 and 120 minutes), the orchestrator wraps it a second time: its caller
  receives a \<open>DeploymentError\<close> with the message of \<open>e\<close>, the code \<open>DeploymentError\<close>,
  the platform, the details duration, dry-run flag and version (no operation label),
  and not retryable. The message of the original failure is kept throughout.
\<close>

theorem deployer_errors_wrapped_twice:
  assumes "action_validateArtifact env inputs = Inr ()"
    and "timeoutMinutes inputs \<le> 120" and "t < timeoutMinutes inputs * 60 * 1000"
  shows "(platform inputs = android
          \<and> android_lifecycle env api entropy clk inputs = (Inl e, calls)
          \<longrightarrow> fst (android_deploy env api entropy clk inputs)
                = Inl \<lparr>cls = DeploymentError, message = message e,
                       code = Some (constructor_name (cls e)), eplatform = Some android,
                       details =
                         Some [(''operation'', JStr ''Google Play deployment''),
                               (''duration'', JNum (t_error clk - t_start clk)),
                               (''version'', JStr (appVersion inputs)),
                               (''buildNumber'',
                                  (case buildNumber inputs of
                                     None \<Rightarrow> JUndefined | Some b \<Rightarrow> JStr b)),
                               (''dryRun'', JBool (dryRun inputs))],
                       retryable = isRetryableError e, response_status = None\<rparr>
              \<and> fst (performDeployment env inputs loop
                       (Some (t, fst (android_deploy env api entropy clk inputs)))
                       start now)
                = Some (Inl \<lparr>cls = DeploymentError, message = message e,
                             code = Some ''DeploymentError'', eplatform = Some android,
                             details =
                               Some [(''duration'', JNum (now - start)),
                                     (''dryRun'', JBool (dryRun inputs)),
                                     (''version'', JStr (appVersion inputs))],
                             retryable = False, response_status = None\<rparr>))
       \<and> (platform inputs = ios
          \<and> ios_lifecycle env ienv entropy clk inputs files = (Inl e, files', evs)
          \<longrightarrow> fst (ios_deploy env ienv entropy clk inputs files)
                = Inl \<lparr>cls = DeploymentError, message = message e,
                       code = Some (constructor_name (cls e)), eplatform = Some ios,
                       details =
                         Some [(''operation'', JStr ''App Store Connect upload''),
                               (''duration'', JNum (t_error clk - t_start clk)),
                               (''version'', JStr (appVersion inputs)),
                               (''buildNumber'',
                                  (case buildNumber inputs of
                                     None \<Rightarrow> JUndefined | Some b \<Rightarrow> JStr b)),
                               (''dryRun'', JBool (dryRun inputs))],
                       retryable = isRetryableError e, response_status = None\<rparr>
              \<and> fst (performDeployment env inputs loop
                       (Some (t, fst (ios_deploy env ienv entropy clk inputs files)))
                       start now)
                = Some (Inl \<lparr>cls = DeploymentError, message = message e,
                             code = Some ''DeploymentError'', eplatform = Some ios,
                             details =
                               Some [(''duration'', JNum (now - start)),
                                     (''dryRun'', JBool (dryRun inputs)),
                                     (''version'', JStr (appVersion inputs))],
                             retryable = False, response_status = None\<rparr>))"
proof (intro conjI impI)
  assume h: "platform inputs = android
          \<and> android_lifecycle env api entropy clk inputs = (Inl e, calls)"
  then have d: "fst (android_deploy env api entropy clk inputs)
                = Inl (handleDeploymentError android e inputs (t_start clk)
                         (Some ''Google Play deployment'') (t_error clk))"
    by (simp add: android_deploy_def)
  show "fst (android_deploy env api entropy clk inputs)
                = Inl \<lparr>cls = DeploymentError, message = message e,
                       code = Some (constructor_name (cls e)), eplatform = Some android,
                       details =
                         Some [(''operation'', JStr ''Google Play deployment''),
                               (''duration'', JNum (t_error clk - t_start clk)),
                               (''version'', JStr (appVersion inputs)),
                               (''buildNumber'',
                                  (case buildNumber inputs of
                                     None \<Rightarrow> JUndefined | Some b \<Rightarrow> JStr b)),
                               (''dryRun'', JBool (dryRun inputs))],
                       retryable = isRetryableError e, response_status = None\<rparr>"
    unfolding d by (simp add: handleDeploymentError_def new_DeploymentError_def)
  show "fst (performDeployment env inputs loop
                       (Some (t, fst (android_deploy env api entropy clk inputs)))
                       start now)
                = Some (Inl \<lparr>cls = DeploymentError, message = message e,
                             code = Some ''DeploymentError'', eplatform = Some android,
                             details =
                               Some [(''duration'', JNum (now - start)),
                                     (''dryRun'', JBool (dryRun inputs)),
                                     (''version'', JStr (appVersion inputs))],
                             retryable = False, response_status = None\<rparr>)"
    unfolding d performDeployment_rejected [OF assms] enhance_handled
    using h by (simp add: new_DeploymentError_def)
next
  assume h: "platform inputs = ios
          \<and> ios_lifecycle env ienv entropy clk inputs files = (Inl e, files', evs)"
  then have d: "fst (ios_deploy env ienv entropy clk inputs files)
                = Inl (handleDeploymentError ios e inputs (t_start clk)
                         (Some ''App Store Connect upload'') (t_error clk))"
    by (simp add: ios_deploy_def)
  show "fst (ios_deploy env ienv entropy clk inputs files)
                = Inl \<lparr>cls = DeploymentError, message = message e,
                       code = Some (constructor_name (cls e)), eplatform = Some ios,
                       details =
                         Some [(''operation'', JStr ''App Store Connect upload''),
                               (''duration'', JNum (t_error clk - t_start clk)),
                               (''version'', JStr (appVersion inputs)),
                               (''buildNumber'',
                                  (case buildNumber inputs of
                                     None \<Rightarrow> JUndefined | Some b \<Rightarrow> JStr b)),
                               (''dryRun'', JBool (dryRun inputs))],
                       retryable = isRetryableError e, response_status = None\<rparr>"
    unfolding d by (simp add: handleDeploymentError_def new_DeploymentError_def)
  show "fst (performDeployment env inputs loop
                       (Some (t, fst (ios_deploy env ienv entropy clk inputs files)))
                       start now)
                = Some (Inl \<lparr>cls = DeploymentError, message = message e,
                             code = Some ''DeploymentError'', eplatform = Some ios,
                             details =
                               Some [(''duration'', JNum (now - start)),
                                     (''dryRun'', JBool (dryRun inputs)),
                                     (''version'', JStr (appVersion inputs))],
                             retryable = False, response_status = None\<rparr>)"
    unfolding d performDeployment_rejected [OF assms] enhance_handled
    using h by (simp add: new_DeploymentError_def)
qed

text \<open>
  The example request: the input decodes to the text of the key, which parses to a
  complete service account, so the API is initialised.
\<close>

lemma example_decode:
  "decodeBase64 (utf8_toString (example_env sz)) example_account_base64
   = Inr example_account_json"
  unfolding example_env_def by code_simp

lemma example_parse:
  "example_json_parse example_account_json
   = Inr [(''type'', JStr ''service_account''), (''project_id'', JStr ''example''),
          (''private_key'', JStr ''key''),
          (''client_email'', JStr ''deploy@example.iam.gserviceaccount.com'')]"
  by (simp add: example_json_parse_def)

lemma example_deployer_valid: "deployer_validateArtifact (example_env 1000) android ''app.aab''"
  by (simp add: deployer_validateArtifact_def example_exists example_info lower_aab)

lemma example_init:
  assumes "json_parse api = example_json_parse"
  shows "initializeGooglePlayAPI (example_env sz) api (example_inputs android a)
           new_AndroidDeployer
         = (Inr (), \<lparr>androidPublisher = True, thisPackageName = ''com.example.app''\<rparr>)"
proof -
  have "googlePlayServiceAccountJson (example_inputs android a) = example_account_base64"
       "googlePlayPackageName (example_inputs android a) = ''com.example.app''"
    by (simp_all add: example_inputs_def)
  then show ?thesis
    using assms
    by (simp add: initializeGooglePlayAPI_def example_decode example_parse
          validateServiceAccount_def new_AndroidDeployer_def)
qed

lemma example_lifecycle_insert_fails:
  "android_lifecycle (example_env 1000)
     ((example_api None None None)\<lparr>edits_insert := Inl (new_Error ''network timeout'')\<rparr>)
     (''t'', ''r'') \<lparr>t_start = 0, t_end = 5, t_error = 7\<rparr> (example_inputs android ''app.aab'')
   = (Inl (new_NetworkError ''Failed to create Google Play edit session: network timeout''
             (Some android) None),
      [EditsInsert])"
proof -
  have i: "initializeGooglePlayAPI (example_env 1000)
             ((example_api None None None)\<lparr>edits_insert := Inl (new_Error ''network timeout'')\<rparr>)
             (example_inputs android ''app.aab'') new_AndroidDeployer
           = (Inr (), \<lparr>androidPublisher = True, thisPackageName = ''com.example.app''\<rparr>)"
    by (rule example_init) (simp add: example_api_def)
  show ?thesis
    unfolding android_lifecycle_def i
    by (simp add: example_inputs_fields example_deployer_valid
          performGooglePlayDeployment_def createEditSession_def)
       (simp add: new_Error_def)
qed

lemma example_retryable:
  "isRetryableError (new_NetworkError
      ''Failed to create Google Play edit session: network timeout'' (Some android) None)"
  by (simp add: isRetryableError_def new_NetworkError_def new_DeploymentError_def startsWith_def)

lemma example_action_valid:
  "action_validateArtifact (example_env 1000) (example_inputs android ''app.aab'') = Inr ()"
  by (simp add: action_validateArtifact_def example_exists example_info example_inputs_fields
        lower_aab)

lemma example_deadline:
  "timeoutMinutes (example_inputs p a) \<le> 120"
  "8 < timeoutMinutes (example_inputs p a) * 60 * 1000"
  by (simp_all add: example_inputs_def)

lemma example_deadline_not_before:
  "\<not> timerBefore \<lparr>timeoutMs = timeoutMinutes (example_inputs p a) * 60 * 1000,
                    signal = Some (AbortSignal False)\<rparr> loop 8"
  by (rule deadline_not_before) (rule example_deadline)+

text \<open>
  Claim C3 as stated fails. Opening the edit session fails with a network timeout, eight
  milliseconds into a deployment with a deadline of 30 minutes; the deployer rejects
  with its \<open>DeploymentError\<close> (code \<open>NetworkError\<close>, operation label, retryable). The
  error the caller of the deployment step receives is another one: the orchestrator has
  wrapped it again, with the code \<open>DeploymentError\<close>, without the operation label and
  not retryable.
\<close>

theorem deployer_error_rewrapped_counterexample:
  "fst (android_deploy (example_env 1000)
          ((example_api None None None)\<lparr>edits_insert := Inl (new_Error ''network timeout'')\<rparr>)
          (''t'', ''r'') \<lparr>t_start = 0, t_end = 5, t_error = 7\<rparr>
          (example_inputs android ''app.aab''))
   = Inl (new_DeploymentError ''Failed to create Google Play edit session: network timeout''
            ''NetworkError'' (Some android)
            (Some [(''operation'', JStr ''Google Play deployment''), (''duration'', JNum 7),
                   (''version'', JStr ''1.2.3''), (''buildNumber'', JUndefined),
                   (''dryRun'', JBool False)])
            True)
   \<and> fst (performDeployment (example_env 1000) (example_inputs android ''app.aab'')
          \<lparr>lateness = 0, timerFirst = True\<rparr>
          (Some (8, fst (android_deploy (example_env 1000)
                ((example_api None None None)
                   \<lparr>edits_insert := Inl (new_Error ''network timeout'')\<rparr>)
                (''t'', ''r'') \<lparr>t_start = 0, t_end = 5, t_error = 7\<rparr>
                (example_inputs android ''app.aab''))))
          0 9)
   = Some (Inl (new_DeploymentError
                  ''Failed to create Google Play edit session: network timeout''
                  ''DeploymentError'' (Some android)
                  (Some [(''duration'', JNum 9), (''dryRun'', JBool False),
                         (''version'', JStr ''1.2.3'')])
                  False))"
proof -
  have d: "fst (android_deploy (example_env 1000)
          ((example_api None None None)\<lparr>edits_insert := Inl (new_Error ''network timeout'')\<rparr>)
          (''t'', ''r'') \<lparr>t_start = 0, t_end = 5, t_error = 7\<rparr>
          (example_inputs android ''app.aab''))
   = Inl (new_DeploymentError ''Failed to create Google Play edit session: network timeout''
            ''NetworkError'' (Some android)
            (Some [(''operation'', JStr ''Google Play deployment''), (''duration'', JNum 7),
                   (''version'', JStr ''1.2.3''), (''buildNumber'', JUndefined),
                   (''dryRun'', JBool False)])
            True)"
    using example_retryable
    by (simp add: android_deploy_def example_lifecycle_insert_fails example_inputs_fields
          handleDeploymentError_def)
       (simp add: new_NetworkError_def new_DeploymentError_def example_inputs_def)
  show ?thesis
    unfolding d
    using example_deadline_not_before [of android "''app.aab''" "\<lparr>lateness = 0, timerFirst = True\<rparr>"]
    by (simp add: settlement_def performDeployment_def example_action_valid
          withTimeout_first_rejection enhance_error_def example_inputs_fields)
       (simp add: new_DeploymentError_def instanceof_def)
qed

lemma example_ios_lifecycle_no_tools:
  "ios_lifecycle (example_env 1000)
     ((example_ios_env (Inr ''ok'') None)\<lparr>altool_available := False\<rparr>)
     (''t'', ''r'') \<lparr>t_start = 0, t_end = 5, t_error = 7\<rparr> (example_inputs ios ''App.ipa'') {}
   = (Inl (new_DeploymentError
             ''Neither xcrun altool nor notarytool is available. Please install Xcode command line tools.''
             ''MISSING_XCODE_TOOLS'' None None False),
      {}, [])"
  by (simp add: ios_lifecycle_def validateIOSInputs_def checkSystemRequirements_def
        example_ios_env_def example_inputs_def)

lemma example_ios_not_retryable:
  "\<not> isRetryableError (new_DeploymentError
      ''Neither xcrun altool nor notarytool is available. Please install Xcode command line tools.''
      ''MISSING_XCODE_TOOLS'' None None False)"
  by code_simp

lemma example_action_valid_ios:
  "action_validateArtifact (example_env 1000) (example_inputs ios ''App.ipa'') = Inr ()"
  by (simp add: action_validateArtifact_def example_exists example_info example_inputs_fields
        toLowerCase_def lower_char_def)

theorem deployer_errors_wrapped_twice_witness:
  "fst (performDeployment (example_env 1000) (example_inputs android ''app.aab'')
          \<lparr>lateness = 0, timerFirst = True\<rparr>
          (Some (8, fst (android_deploy (example_env 1000)
                ((example_api None None None)
                   \<lparr>edits_insert := Inl (new_Error ''network timeout'')\<rparr>)
                (''t'', ''r'') \<lparr>t_start = 0, t_end = 5, t_error = 7\<rparr>
                (example_inputs android ''app.aab''))))
          0 9)
   = Some (Inl (new_DeploymentError
                  ''Failed to create Google Play edit session: network timeout''
                  ''DeploymentError'' (Some android)
                  (Some [(''duration'', JNum 9), (''dryRun'', JBool False),
                         (''version'', JStr ''1.2.3'')])
                  False))
   \<and> fst (ios_deploy (example_env 1000)
            ((example_ios_env (Inr ''ok'') None)\<lparr>altool_available := False\<rparr>)
            (''t'', ''r'') \<lparr>t_start = 0, t_end = 5, t_error = 7\<rparr>
            (example_inputs ios ''App.ipa'') {})
     = Inl (new_DeploymentError
              ''Neither xcrun altool nor notarytool is available. Please install Xcode command line tools.''
              ''DeploymentError'' (Some ios)
              (Some [(''operation'', JStr ''App Store Connect upload''), (''duration'', JNum 7),
                     (''version'', JStr ''1.2.3''), (''buildNumber'', JUndefined),
                     (''dryRun'', JBool False)])
              False)
   \<and> fst (performDeployment (example_env 1000) (example_inputs ios ''App.ipa'')
          \<lparr>lateness = 0, timerFirst = True\<rparr>
          (Some (8, fst (ios_deploy (example_env 1000)
                ((example_ios_env (Inr ''ok'') None)\<lparr>altool_available := False\<rparr>)
                (''t'', ''r'') \<lparr>t_start = 0, t_end = 5, t_error = 7\<rparr>
                (example_inputs ios ''App.ipa'') {})))
          0 9)
   = Some (Inl (new_DeploymentError
                  ''Neither xcrun altool nor notarytool is available. Please install Xcode command line tools.''
                  ''DeploymentError'' (Some ios)
                  (Some [(''duration'', JNum 9), (''dryRun'', JBool False),
                         (''version'', JStr ''1.2.3'')])
                  False))"
proof -
  let ?loop = "\<lparr>lateness = 0, timerFirst = True\<rparr>"
  have a: "platform (example_inputs android ''app.aab'') = android
           \<and> android_lifecycle (example_env 1000)
               ((example_api None None None)
                  \<lparr>edits_insert := Inl (new_Error ''network timeout'')\<rparr>)
               (''t'', ''r'') \<lparr>t_start = 0, t_end = 5, t_error = 7\<rparr>
               (example_inputs android ''app.aab'')
             = (Inl (new_NetworkError
                       ''Failed to create Google Play edit session: network timeout''
                       (Some android) None),
                [EditsInsert])"
    by (simp add: example_lifecycle_insert_fails example_inputs_fields)
  have b: "platform (example_inputs ios ''App.ipa'') = ios
           \<and> ios_lifecycle (example_env 1000)
               ((example_ios_env (Inr ''ok'') None)\<lparr>altool_available := False\<rparr>)
               (''t'', ''r'') \<lparr>t_start = 0, t_end = 5, t_error = 7\<rparr>
               (example_inputs ios ''App.ipa'') {}
             = (Inl (new_DeploymentError
                       ''Neither xcrun altool nor notarytool is available. Please install Xcode command line tools.''
                       ''MISSING_XCODE_TOOLS'' None None False),
                {}, [])"
    by (simp add: example_ios_lifecycle_no_tools example_inputs_fields)
  note t1 = deployer_errors_wrapped_twice
              [OF example_action_valid example_deadline, THEN conjunct1, rule_format, OF a,
               where loop = ?loop and start = 0 and now = 9]
  note t2 = deployer_errors_wrapped_twice
              [OF example_action_valid_ios example_deadline, THEN conjunct2, rule_format, OF b,
               where loop = ?loop and start = 0 and now = 9]
  have bn: "buildNumber (example_inputs ios ''App.ipa'') = None"
    by (simp add: example_inputs_def)
  have A: "fst (performDeployment (example_env 1000) (example_inputs android ''app.aab'')
          ?loop
          (Some (8, fst (android_deploy (example_env 1000)
                ((example_api None None None)
                   \<lparr>edits_insert := Inl (new_Error ''network timeout'')\<rparr>)
                (''t'', ''r'') \<lparr>t_start = 0, t_end = 5, t_error = 7\<rparr>
                (example_inputs android ''app.aab''))))
          0 9)
   = Some (Inl (new_DeploymentError
                  ''Failed to create Google Play edit session: network timeout''
                  ''DeploymentError'' (Some android)
                  (Some [(''duration'', JNum 9), (''dryRun'', JBool False),
                         (''version'', JStr ''1.2.3'')])
                  False))"
    using t1 [THEN conjunct2]
    by (simp add: example_inputs_fields new_NetworkError_def new_DeploymentError_def)
  have I1: "fst (ios_deploy (example_env 1000)
            ((example_ios_env (Inr ''ok'') None)\<lparr>altool_available := False\<rparr>)
            (''t'', ''r'') \<lparr>t_start = 0, t_end = 5, t_error = 7\<rparr>
            (example_inputs ios ''App.ipa'') {})
     = Inl (new_DeploymentError
              ''Neither xcrun altool nor notarytool is available. Please install Xcode command line tools.''
              ''DeploymentError'' (Some ios)
              (Some [(''operation'', JStr ''App Store Connect upload''), (''duration'', JNum 7),
                     (''version'', JStr ''1.2.3''), (''buildNumber'', JUndefined),
                     (''dryRun'', JBool False)])
              False)"
    using t2 [THEN conjunct1] example_ios_not_retryable
    by (simp add: example_inputs_fields bn new_DeploymentError_def)
  have I2: "fst (performDeployment (example_env 1000) (example_inputs ios ''App.ipa'')
          ?loop
          (Some (8, fst (ios_deploy (example_env 1000)
                ((example_ios_env (Inr ''ok'') None)\<lparr>altool_available := False\<rparr>)
                (''t'', ''r'') \<lparr>t_start = 0, t_end = 5, t_error = 7\<rparr>
                (example_inputs ios ''App.ipa'') {})))
          0 9)
   = Some (Inl (new_DeploymentError
                  ''Neither xcrun altool nor notarytool is available. Please install Xcode command line tools.''
                  ''DeploymentError'' (Some ios)
                  (Some [(''duration'', JNum 9), (''dryRun'', JBool False),
                         (''version'', JStr ''1.2.3'')])
                  False))"
    using t2 [THEN conjunct2]
    by (simp add: example_inputs_fields new_DeploymentError_def)
  show ?thesis
    by (intro conjI A I1 I2)
qed

section \<open>iOS: the temporary key file\<close>

lemma uploadWithAltool_snapshot:
  "uploadWithAltool env ienv ipaPath apiKeyPath inputs files = (uploaded, evs) \<Longrightarrow>
   ExecAltool cmd snapshot \<in> set evs \<Longrightarrow> snapshot = files"
  by (auto simp: uploadWithAltool_def Let_def split: if_splits sum.splits prod.splits)

lemma createTemporaryApiKeyFile_written:
  "createTemporaryApiKeyFile env ienv inputs files = (Inr kp, files1, ev1) \<Longrightarrow>
   files1 = insert kp files \<and> ev1 = [WriteFile kp]
   \<and> kp = path_join env (os_tmpdir ienv) (''AuthKey_'' @ appStoreConnectApiKeyId inputs @ ''.p8'')"
  by (auto simp: createTemporaryApiKeyFile_def Let_def split: sum.splits option.splits)

lemma createTemporaryApiKeyFile_failed:
  "createTemporaryApiKeyFile env ienv inputs files = (Inl e, files1, ev1) \<Longrightarrow>
   files1 = files \<and> (\<forall>cmd snapshot. ExecAltool cmd snapshot \<notin> set ev1)"
  by (auto simp: createTemporaryApiKeyFile_def Let_def split: sum.splits option.splits)

text \<open>
  Claim C8, amended. Once the key file is written, the run of
  \<open>performRealAppStoreUpload\<close> is: the write, what the upload does, and the
  \<open>unlink\<close> of the key file, last, whether the upload succeeded or failed. Every
  invocation of the upload tool sees the key file. When the \<open>unlink\<close> succeeds the
  file does not exist afterwards; when it fails the file is still there. In both cases
  the outcome is the upload's: a failure of the removal is swallowed.
\<close>

theorem credential_file_scoped_to_upload:
  assumes "createTemporaryApiKeyFile env ienv inputs files = (Inr kp, files1, ev1)"
    and "uploadWithAltool env ienv (artifactPath inputs) kp inputs files1 = (uploaded, ev2)"
  shows "snd (snd (performRealAppStoreUpload env ienv entropy clk inputs files))
           = ev1 @ ev2 @ [Unlink kp]
       \<and> (\<forall>cmd snapshot. ExecAltool cmd snapshot \<in> set (ev1 @ ev2) \<longrightarrow> kp \<in> snapshot)
       \<and> (unlink_error ienv kp = None
            \<longrightarrow> kp \<notin> fst (snd (performRealAppStoreUpload env ienv entropy clk inputs files)))
       \<and> (unlink_error ienv kp \<noteq> None
            \<longrightarrow> kp \<in> fst (snd (performRealAppStoreUpload env ienv entropy clk inputs files)))
       \<and> isl (fst (performRealAppStoreUpload env ienv entropy clk inputs files)) = isl uploaded
       \<and> (\<forall>e. uploaded = Inl e
            \<longrightarrow> fst (performRealAppStoreUpload env ienv entropy clk inputs files) = Inl e)"
proof -
  from assms(1) have w: "files1 = insert kp files" "ev1 = [WriteFile kp]"
    by (simp_all add: createTemporaryApiKeyFile_written)
  have snap: "\<forall>cmd snapshot. ExecAltool cmd snapshot \<in> set (ev1 @ ev2) \<longrightarrow> kp \<in> snapshot"
    using uploadWithAltool_snapshot [OF assms(2)] w by auto
  have run: "performRealAppStoreUpload env ienv entropy clk inputs files
             = ((case uploaded of Inl error \<Rightarrow> Inl error
                 | Inr u \<Rightarrow> fst (performRealAppStoreUpload env ienv entropy clk inputs files)),
                fst (cleanupTemporaryApiKeyFile ienv kp files1),
                ev1 @ ev2 @ [Unlink kp])"
    using assms
    by (simp add: performRealAppStoreUpload_def cleanupTemporaryApiKeyFile_def
          split: sum.splits)
  have out: "isl (fst (performRealAppStoreUpload env ienv entropy clk inputs files)) = isl uploaded"
    using assms
    by (simp add: performRealAppStoreUpload_def cleanupTemporaryApiKeyFile_def
          split: sum.splits)
  have files2: "fst (snd (performRealAppStoreUpload env ienv entropy clk inputs files))
                = fst (cleanupTemporaryApiKeyFile ienv kp files1)"
    by (subst run) simp
  show ?thesis
  proof (intro conjI allI impI)
    show "snd (snd (performRealAppStoreUpload env ienv entropy clk inputs files))
           = ev1 @ ev2 @ [Unlink kp]"
      by (subst run) simp
    show "\<And>cmd snapshot. ExecAltool cmd snapshot \<in> set (ev1 @ ev2) \<Longrightarrow> kp \<in> snapshot"
      using snap by blast
    show "unlink_error ienv kp = None \<Longrightarrow>
          kp \<notin> fst (snd (performRealAppStoreUpload env ienv entropy clk inputs files))"
      unfolding files2 by (simp add: cleanupTemporaryApiKeyFile_def w)
    show "unlink_error ienv kp \<noteq> None \<Longrightarrow>
          kp \<in> fst (snd (performRealAppStoreUpload env ienv entropy clk inputs files))"
      unfolding files2 by (simp add: cleanupTemporaryApiKeyFile_def w)
    show "isl (fst (performRealAppStoreUpload env ienv entropy clk inputs files)) = isl uploaded"
      by (rule out)
    show "\<And>e. uploaded = Inl e \<Longrightarrow>
          fst (performRealAppStoreUpload env ienv entropy clk inputs files) = Inl e"
      by (subst run) simp
  qed
qed


lemma example_key_decode: "decodeBase64 (utf8_toString (example_env sz)) ''a2V5'' = Inr ''key''"
  unfolding example_env_def by code_simp

lemma example_key_file:
  "createTemporaryApiKeyFile (example_env sz) (example_ios_env uploaded removed)
     (example_inputs ios a) {}
   = (Inr ''/tmp/AuthKey_ABCDEFGHIJ.p8'', {''/tmp/AuthKey_ABCDEFGHIJ.p8''},
      [WriteFile ''/tmp/AuthKey_ABCDEFGHIJ.p8''])"
proof -
  have "appStoreConnectApiPrivateKey (example_inputs ios a) = ''a2V5''"
    "appStoreConnectApiKeyId (example_inputs ios a) = ''ABCDEFGHIJ''"
    by (simp_all add: example_inputs_def)
  moreover have "path_join (example_env sz) = (\<lambda>a b. a @ ''/'' @ b)"
    by (simp add: example_env_def)
  ultimately show ?thesis
    by (simp add: createTemporaryApiKeyFile_def example_key_decode example_ios_env_def Let_def)
qed

lemma example_upload:
  "uploadWithAltool (example_env sz) (example_ios_env uploaded removed) ipa kp inputs files
   = ((case uploaded of
         Inr output \<Rightarrow> Inr ()
       | Inl execError \<Rightarrow>
           Inl (new_DeploymentError
                  (''App Store upload failed: ''
                   @ message (handleAltoolError
                        (if stderr execError \<noteq> [] then stderr execError
                         else if stdout execError \<noteq> [] then stdout execError
                         else exec_message execError)))
                  ''ALTOOL_UPLOAD_FAILED'' None None False)),
      [ExecAltool (altoolCommand (example_env sz) ipa kp inputs) files])"
proof -
  have "fs_access (example_env sz) ipa" "fs_stat (example_env sz) ipa = Inr sz"
    by (simp_all add: example_env_def)
  then show ?thesis
    by (simp add: uploadWithAltool_def example_ios_env_def Let_def split: sum.splits)
qed

lemma example_unlink: "unlink_error (example_ios_env uploaded removed) p = removed"
  by (simp add: example_ios_env_def)

text \<open>
  Claim C8 as stated fails when the removal fails: the upload succeeds, \<open>fs.unlink\<close>
  is refused by the operating system, the failure is swallowed, and the key file still
  exists after the upload has returned.
\<close>

theorem credential_file_outlives_counterexample:
  "\<not> isl (fst (performRealAppStoreUpload (example_env 1000)
                 (example_ios_env (Inr ''No errors uploading'')
                    (Some (new_Error ''EPERM: operation not permitted'')))
                 (''t'', ''r'') \<lparr>t_start = 0, t_end = 5, t_error = 7\<rparr>
                 (example_inputs ios ''App.ipa'') {}))
   \<and> ''/tmp/AuthKey_ABCDEFGHIJ.p8''
       \<in> fst (snd (performRealAppStoreUpload (example_env 1000)
                 (example_ios_env (Inr ''No errors uploading'')
                    (Some (new_Error ''EPERM: operation not permitted'')))
                 (''t'', ''r'') \<lparr>t_start = 0, t_end = 5, t_error = 7\<rparr>
                 (example_inputs ios ''App.ipa'') {}))"
  by (simp add: performRealAppStoreUpload_def example_key_file example_upload
        cleanupTemporaryApiKeyFile_def example_unlink)

theorem credential_file_scoped_to_upload_witness:
  "''/tmp/AuthKey_ABCDEFGHIJ.p8''
       \<notin> fst (snd (performRealAppStoreUpload (example_env 1000)
                 (example_ios_env (Inr ''No errors uploading'') None)
                 (''t'', ''r'') \<lparr>t_start = 0, t_end = 5, t_error = 7\<rparr>
                 (example_inputs ios ''App.ipa'') {}))
   \<and> snd (snd (performRealAppStoreUpload (example_env 1000)
                 (example_ios_env (Inr ''No errors uploading'') None)
                 (''t'', ''r'') \<lparr>t_start = 0, t_end = 5, t_error = 7\<rparr>
                 (example_inputs ios ''App.ipa'') {}))
     = [WriteFile ''/tmp/AuthKey_ABCDEFGHIJ.p8'',
        ExecAltool (altoolCommand (example_env 1000) ''App.ipa'' ''/tmp/AuthKey_ABCDEFGHIJ.p8''
                      (example_inputs ios ''App.ipa''))
          {''/tmp/AuthKey_ABCDEFGHIJ.p8''},
        Unlink ''/tmp/AuthKey_ABCDEFGHIJ.p8'']
   \<and> ''/tmp/AuthKey_ABCDEFGHIJ.p8''
       \<notin> fst (snd (performRealAppStoreUpload (example_env 1000)
                 (example_ios_env
                    (Inl \<lparr>stderr = ''Unable to authenticate'', stdout = [], exec_message = [],
                          exit_status = 1\<rparr>) None)
                 (''t'', ''r'') \<lparr>t_start = 0, t_end = 5, t_error = 7\<rparr>
                 (example_inputs ios ''App.ipa'') {}))
   \<and> isl (fst (performRealAppStoreUpload (example_env 1000)
                 (example_ios_env
                    (Inl \<lparr>stderr = ''Unable to authenticate'', stdout = [], exec_message = [],
                          exit_status = 1\<rparr>) None)
                 (''t'', ''r'') \<lparr>t_start = 0, t_end = 5, t_error = 7\<rparr>
                 (example_inputs ios ''App.ipa'') {}))"
proof -
  let ?ok = "example_ios_env (Inr ''No errors uploading'') None"
  let ?ko = "example_ios_env
               (Inl \<lparr>stderr = ''Unable to authenticate'', stdout = [], exec_message = [],
                     exit_status = 1\<rparr>) None"
  let ?inputs = "example_inputs ios ''App.ipa''"
  have p: "artifactPath ?inputs = ''App.ipa''" by (simp add: example_inputs_fields)
  have n: "unlink_error ?ok ''/tmp/AuthKey_ABCDEFGHIJ.p8'' = None"
          "unlink_error ?ko ''/tmp/AuthKey_ABCDEFGHIJ.p8'' = None"
    by (simp_all add: example_unlink)
  note t1 = credential_file_scoped_to_upload [OF example_key_file,
              of 1000 "Inr ''No errors uploading''" None "''App.ipa''",
              unfolded p, OF example_upload, of "(''t'', ''r'')" "\<lparr>t_start = 0, t_end = 5, t_error = 7\<rparr>"]
  note t2 = credential_file_scoped_to_upload [OF example_key_file,
              of 1000 "Inl \<lparr>stderr = ''Unable to authenticate'', stdout = [], exec_message = [],
                     exit_status = 1\<rparr>" None "''App.ipa''",
              unfolded p, OF example_upload, of "(''t'', ''r'')" "\<lparr>t_start = 0, t_end = 5, t_error = 7\<rparr>"]
  from t1 t2 n show ?thesis by simp
qed

section \<open>Base64: round trip and canonical inputs\<close>

lemma b64_char_inverse_all:
  "list_all (\<lambda>i. unbase64 (b64_char i) = Some i \<and> b64_char i \<noteq> CHR ''='') [0..<64]"
  by code_simp

lemma b64_char_inverse:
  assumes "i < 64"
  shows "unbase64 (b64_char i) = Some i" and "b64_char i \<noteq> CHR ''=''"
  using b64_char_inverse_all assms by (simp_all add: list_all_iff)

lemma sextets_char: "i < 64 \<Longrightarrow> sextets (b64_char i # str) = i # sextets str"
  by (simp add: sextets_def b64_char_inverse map_filter_simps)

lemma sextets_pad: "sextets (CHR ''='' # str) = []" "sextets [] = []"
  by (simp_all add: sextets_def map_filter_simps)

lemma sextet_bounds:
  fixes a b c :: nat
  assumes "a < 256" "b < 256" "c < 256"
  shows "a div 4 < 64" "(a mod 4) * 16 + b div 16 < 64" "(b mod 16) * 4 + c div 64 < 64"
    "c mod 64 < 64" "(a mod 4) * 16 < 64" "(b mod 16) * 4 < 64"
  using assms by auto

lemma bytes_back_a:
  fixes a b :: nat
  assumes "b < 256"
  shows "a div 4 * 4 + ((a mod 4) * 16 + b div 16) div 16 = a"
  using assms by (simp add: div_mult2_eq)

lemma bytes_back_a':
  fixes a :: nat
  shows "a div 4 * 4 + ((a mod 4) * 16) div 16 = a"
  by simp

lemma bytes_back_b:
  fixes a b c :: nat
  assumes "b < 256" "c < 256"
  shows "(((a mod 4) * 16 + b div 16) mod 16) * 16 + ((b mod 16) * 4 + c div 64) div 4 = b"
proof -
  have "b div 16 < 16" using assms by simp
  then have "((a mod 4) * 16 + b div 16) mod 16 = b div 16" by simp
  moreover have "c div 64 < 4" using assms by simp
  then have "((b mod 16) * 4 + c div 64) div 4 = b mod 16" by simp
  ultimately show ?thesis by simp
qed

lemma bytes_back_b':
  fixes a b :: nat
  assumes "b < 256"
  shows "(((a mod 4) * 16 + b div 16) mod 16) * 16 + ((b mod 16) * 4) div 4 = b"
proof -
  have "b div 16 < 16" using assms by simp
  then have "((a mod 4) * 16 + b div 16) mod 16 = b div 16" by simp
  then show ?thesis by simp
qed

lemma bytes_back_c:
  fixes b c :: nat
  assumes "c < 256"
  shows "(((b mod 16) * 4 + c div 64) mod 4) * 64 + c mod 64 = c"
proof -
  have "c div 64 < 4" using assms by simp
  then have "((b mod 16) * 4 + c div 64) mod 4 = c div 64" by simp
  then show ?thesis by simp
qed


lemma base64_decode_encode:
  "\<forall>b \<in> set bs. b < 256 \<Longrightarrow> base64_decode (base64_encode bs) = bs"
proof (induction bs rule: base64_encode.induct)
  case 1
  show ?case by (simp add: base64_decode_def sextets_pad)
next
  case (2 a)
  then have a: "a < 256" by simp
  have "sextets (base64_encode [a]) = [a div 4, (a mod 4) * 16]"
    using sextet_bounds(1,5) [OF a a a] by (simp add: sextets_char sextets_pad)
  then show ?case
    using bytes_back_a' [of a] by (simp add: base64_decode_def)
next
  case (3 a b)
  then have a: "a < 256" and b: "b < 256" by simp_all
  have "sextets (base64_encode [a, b]) = [a div 4, (a mod 4) * 16 + b div 16, (b mod 16) * 4]"
    using sextet_bounds(1,2,6) [OF a b b] by (simp add: sextets_char sextets_pad)
  then show ?case
    using bytes_back_a [OF b, of a] bytes_back_b' [OF b, of a] by (simp add: base64_decode_def)
next
  case (4 a b c bs)
  then have a: "a < 256" and b: "b < 256" and c: "c < 256"
    and IH: "base64_decode (base64_encode bs) = bs" by simp_all
  have "sextets (base64_encode (a # b # c # bs))
        = a div 4 # ((a mod 4) * 16 + b div 16) # ((b mod 16) * 4 + c div 64) # c mod 64
          # sextets (base64_encode bs)"
    using sextet_bounds(1,2,3,4) [OF a b c] by (simp add: sextets_char)
  then show ?case
    using bytes_back_a [OF b, of a] bytes_back_b [OF b c, of a] bytes_back_c [OF c, of b] IH
    by (simp add: base64_decode_def)
qed


lemma unbase64_range:
  assumes "unbase64 c = Some i"
  shows "i < 64"
proof -
  from assms
  have "(c, i) \<in> set (zip b64_alphabet [0..<64] @ [(CHR ''-'', 62), (CHR ''_'', 63)])"
    unfolding unbase64_def by (rule map_of_SomeD)
  then have "(c, i) \<in> set (zip b64_alphabet [0..<64]) \<or> i = 62 \<or> i = 63"
    by auto
  then show ?thesis
    by (auto dest: set_zip_rightD)
qed

lemma sextets_range: "i \<in> set (sextets str) \<Longrightarrow> i < 64"
  by (auto simp: sextets_def List.map_filter_def unbase64_range)

lemma sextets_to_bytes_range:
  "\<forall>i \<in> set xs. i < 64 \<Longrightarrow> \<forall>b \<in> set (sextets_to_bytes xs). b < 256"
proof (induction xs rule: sextets_to_bytes.induct)
  case (1 h i j k rest)
  then have "h < 64" "i < 64" "j < 64" "k < 64" by simp_all
  then have "h * 4 + i div 16 < 256" "(i mod 16) * 16 + j div 4 < 256" "(j mod 4) * 64 + k < 256"
    by simp_all
  with 1 show ?case by simp
next
  case (2 h i j)
  then have "h < 64" "i < 64" "j < 64" by simp_all
  then have "h * 4 + i div 16 < 256" "(i mod 16) * 16 + j div 4 < 256"
    by simp_all
  then show ?case by simp
next
  case (3 h i)
  then have "h < 64" "i < 64" by simp_all
  then have "h * 4 + i div 16 < 256" by simp
  then show ?case by simp
qed simp_all

lemma base64_decode_range: "\<forall>b \<in> set (base64_decode str). b < 256"
  unfolding base64_decode_def
  by (rule sextets_to_bytes_range) (simp add: sextets_range)

lemma isValidBase64_canonical:
  "isValidBase64 x \<longleftrightarrow> (\<exists>bs. (\<forall>b \<in> set bs. b < 256) \<and> x = base64_encode bs)"
proof
  assume "isValidBase64 x"
  then have "x = base64_encode (base64_decode x)" by (simp add: isValidBase64_def)
  with base64_decode_range [of x] show "\<exists>bs. (\<forall>b \<in> set bs. b < 256) \<and> x = base64_encode bs"
    by blast
next
  assume "\<exists>bs. (\<forall>b \<in> set bs. b < 256) \<and> x = base64_encode bs"
  then show "isValidBase64 x"
    by (auto simp: isValidBase64_def base64_decode_encode)
qed

lemma buffer_from_utf8_range: "\<forall>b \<in> set (buffer_from_utf8 s). b < 256"
  by (simp add: buffer_from_utf8_def)

text \<open>
  Claim C10. For a string \<open>s\<close> that the runtime's UTF-8 decoder gives back from its
  bytes (a well-formed string), \<open>decodeBase64 (encodeBase64 s)\<close> returns \<open>s\<close>. And
  \<open>decodeBase64\<close> throws exactly when decoding its input and encoding the result again
  does not give the input back, which is exactly when the input is not the base64
  encoding of any sequence of bytes.
\<close>

theorem base64_roundtrip:
  assumes "utf8_decoder (buffer_from_utf8 s) = s"
  shows "decodeBase64 utf8_decoder (encodeBase64 s) = Inr s
       \<and> (\<forall>x. isl (decodeBase64 utf8_decoder x) \<longleftrightarrow> base64_encode (base64_decode x) \<noteq> x)
       \<and> (\<forall>x. isl (decodeBase64 utf8_decoder x)
               \<longleftrightarrow> \<not> (\<exists>bs. (\<forall>b \<in> set bs. b < 256) \<and> x = base64_encode bs))"
proof (intro conjI allI)
  have d: "base64_decode (encodeBase64 s) = buffer_from_utf8 s"
    unfolding encodeBase64_def
    by (rule base64_decode_encode) (rule buffer_from_utf8_range)
  then have "isValidBase64 (encodeBase64 s)"
    by (simp add: isValidBase64_def encodeBase64_def)
  with d assms show "decodeBase64 utf8_decoder (encodeBase64 s) = Inr s"
    by (simp add: decodeBase64_def)
next
  fix x
  show "isl (decodeBase64 utf8_decoder x) \<longleftrightarrow> base64_encode (base64_decode x) \<noteq> x"
    by (simp add: decodeBase64_def isValidBase64_def)
  show "isl (decodeBase64 utf8_decoder x)
          \<longleftrightarrow> \<not> (\<exists>bs. (\<forall>b \<in> set bs. b < 256) \<and> x = base64_encode bs)"
    using isValidBase64_canonical [of x] by (simp add: decodeBase64_def)
qed


theorem base64_roundtrip_witness:
  "decodeBase64 (map char_of) (encodeBase64 ''Hello, world'') = Inr ''Hello, world''
   \<and> encodeBase64 ''Hello, world'' = ''SGVsbG8sIHdvcmxk''
   \<and> isl (decodeBase64 (map char_of) ''QQ'')
   \<and> \<not> isl (decodeBase64 (map char_of) ''QQ=='')"
proof -
  have h: "map char_of (buffer_from_utf8 ''Hello, world'') = ''Hello, world''"
    unfolding buffer_from_utf8_def map_map by (simp add: comp_def)
  have e: "encodeBase64 ''Hello, world'' = ''SGVsbG8sIHdvcmxk''"
    by code_simp
  have n: "base64_encode (base64_decode ''QQ'') \<noteq> ''QQ''"
    by code_simp
  have v: "base64_encode (base64_decode ''QQ=='') = ''QQ==''"
    by code_simp
  note r = base64_roundtrip [of "map char_of" "''Hello, world''", OF h]
  from r [THEN conjunct1] r [THEN conjunct2, THEN conjunct1, rule_format, of "''QQ''"]
    r [THEN conjunct2, THEN conjunct1, rule_format, of "''QQ==''"] e n v
  show ?thesis by simp
qed

end
